theory Spec2Isabelle
  imports Main "HOL-Library.Word"
begin

unbundle bit_operations_syntax

section \<open>The HCN syscall gateway (hcn/zsyscall_windows.go)\<close>

subsection \<open>Values, errors and the native environment\<close>

text \<open>
  \<open>uintptr\<close> is the register-sized unsigned integer of the 64-bit Windows targets of the
  package; \<open>syscall.Errno\<close> has the same representation.  The handle types
  \<open>hcnNetwork\<close>, \<open>hcnEndpoint\<close>, \<open>hcnNamespace\<close>, \<open>hcnLoadBalancer\<close> and
  \<open>hcnRoute\<close> are declared outside this file; the wrappers only ever convert them with
  \<open>uintptr(h)\<close>, so a handle is its \<open>uintptr\<close> value.  A pointer supplied by the caller
  (\<open>*_guid\<close>, \<open>**uint16\<close>, \<open>*hcnNetwork\<close>, ...) is the address it holds.
\<close>

type_synonym uintptr = "64 word"
type_synonym int32 = "32 word"
type_synonym uint32 = "32 word"
type_synonym uint16 = "16 word"

text \<open>
  A Go \<open>error\<close> value as the wrappers can produce it: a \<open>syscall.Errno\<close>, or the error
  of a failed resolution of an entry point (library name, symbol name, and the loader's
  own error number).
\<close>

datatype error = Errno uintptr | DLLError string string uintptr

text \<open>
  An argument handed to the native function: a plain register value, or the address of a
  NUL-terminated UTF-16 buffer that the wrapper has just produced from a string (the
  buffer's content stands for the pointer).
\<close>

datatype arg = Val uintptr | Utf16 "uint16 list"

text \<open>
  A call either returns to its caller or panics.
\<close>

datatype 'a outcome = Return 'a | Panic error

text \<open>
  Everything the file takes from outside: the numeric value of \<open>syscall.EINVAL\<close>, the
  loader (library name and symbol name to an address, or a failure), and the native
  functions themselves, which map the register arguments and the memory they can reach to
  the value left in the result register and the memory afterwards.
\<close>

record 'w env =
  EINVAL :: uintptr
  loader :: "string \<Rightarrow> string \<Rightarrow> error + uintptr"
  native :: "uintptr \<Rightarrow> arg list \<Rightarrow> 'w \<Rightarrow> uintptr \<times> 'w"

text \<open>
  A lazily bound entry point is named by its library and its symbol.
\<close>

type_synonym LazyProc = "string \<times> string"

text \<open>
  The state a call runs in: the entry points bound so far, the native invocations made so
  far (address and arguments, oldest first), and the memory shared with the native layer,
  where the output pointers of the caller live.
\<close>

record 'w sys =
  bound :: "LazyProc \<rightharpoonup> uintptr"
  calls :: "(uintptr \<times> arg list) list"
  world :: 'w

definition NewProc :: "string \<Rightarrow> string \<Rightarrow> LazyProc" where
  "NewProc dll name = (dll, name)"

text \<open>
  Modelled from the spec: the lazy binding of an entry point, which is
  \<open>LazyProc.Find\<close> and \<open>LazyProc.Addr\<close> of golang.org/x/sys/windows and not part of
  this file ("each named entry point is resolved from its hosting library on first use and
  cached; resolution failure (symbol not found, library absent) is reported as a distinct
  error").  \<open>Find\<close> returns the failure; \<open>Addr\<close> has no error result and panics
  with it.
\<close>

definition bind_proc :: "'w env \<Rightarrow> LazyProc \<Rightarrow> 'w sys \<Rightarrow> (error + uintptr) \<times> 'w sys" where
  "bind_proc env p s =
     (case bound s p of
        Some a \<Rightarrow> (Inr a, s)
      | None \<Rightarrow>
          (case loader env (fst p) (snd p) of
             Inl e \<Rightarrow> (Inl e, s)
           | Inr a \<Rightarrow> (Inr a, s\<lparr>bound := (bound s)(p \<mapsto> a)\<rparr>)))"

definition Find :: "'w env \<Rightarrow> LazyProc \<Rightarrow> 'w sys \<Rightarrow> error option \<times> 'w sys" where
  "Find env p s =
     (case bind_proc env p s of
        (Inl e, s') \<Rightarrow> (Some e, s')
      | (Inr a, s') \<Rightarrow> (None, s'))"

definition Addr :: "'w env \<Rightarrow> LazyProc \<Rightarrow> 'w sys \<Rightarrow> (error + uintptr) \<times> 'w sys" where
  "Addr env p s = bind_proc env p s"

text \<open>
  \<open>syscall.SyscallN(trap, args...)\<close>: the native function at \<open>trap\<close> runs once on the
  arguments; the wrappers keep only the first result register.
\<close>

definition SyscallN :: "'w env \<Rightarrow> uintptr \<Rightarrow> arg list \<Rightarrow> 'w sys \<Rightarrow> uintptr \<times> 'w sys" where
  "SyscallN env trap args s =
     (case native env trap args (world s) of
        (r0, w') \<Rightarrow> (r0, s\<lparr>calls := calls s @ [(trap, args)], world := w'\<rparr>))"

subsection \<open>String arguments\<close>

text \<open>
  Modelled from the spec: the conversion of a string argument ("every string argument must
  be converted to a null-terminated UTF-16 sequence before the native call; conversion
  failure (e.g., embedded null bytes) is a local error"), which is
  \<open>syscall.UTF16PtrFromString\<close> of the Go standard library and not part of this file,
  together with the decoding of such a buffer back to text, \<open>syscall.UTF16ToString\<close>.
  A Go string is a sequence of bytes (here \<open>string\<close>, a list of 8-bit characters) that
  holds UTF-8; a \<open>rune\<close> is a code point.
\<close>

type_synonym rune = int

definition RuneError :: rune where "RuneError = 0xFFFD"
definition MaxRune :: rune where "MaxRune = 0x10FFFF"
definition surr1 :: rune where "surr1 = 0xD800"
definition surr2 :: rune where "surr2 = 0xDC00"
definition surr3 :: rune where "surr3 = 0xE000"
definition surrSelf :: rune where "surrSelf = 0x10000"
definition locb :: int where "locb = 0x80"
definition hicb :: int where "hicb = 0xBF"

text \<open>
  The table \<open>first\<close> of package utf8, for a leading byte that is not ASCII: the length of
  the sequence it starts and the range accepted for the second byte, or nothing for a byte
  that starts no sequence.
\<close>

definition first :: "int \<Rightarrow> (nat \<times> int \<times> int) option" where
  "first s0 =
     (if 0xC2 \<le> s0 \<and> s0 \<le> 0xDF then Some (2, locb, hicb)
      else if s0 = 0xE0 then Some (3, 0xA0, hicb)
      else if 0xE1 \<le> s0 \<and> s0 \<le> 0xEC then Some (3, locb, hicb)
      else if s0 = 0xED then Some (3, locb, 0x9F)
      else if 0xEE \<le> s0 \<and> s0 \<le> 0xEF then Some (3, locb, hicb)
      else if s0 = 0xF0 then Some (4, 0x90, hicb)
      else if 0xF1 \<le> s0 \<and> s0 \<le> 0xF3 then Some (4, locb, hicb)
      else if s0 = 0xF4 then Some (4, locb, 0x8F)
      else None)"

text \<open>
  \<open>utf8.DecodeRuneInString\<close>: the first code point of the string and the number of bytes
  it takes; a byte that is not the start of a well-formed sequence decodes to
  \<open>RuneError\<close> with width 1.  The masks and shifts of the source are written as
  \<open>mod\<close> and multiplication on the byte values.
\<close>

definition DecodeRuneInString :: "string \<Rightarrow> rune \<times> nat" where
  "DecodeRuneInString s =
     (case map of_char s of
        [] \<Rightarrow> (RuneError, 0)
      | s0 # t \<Rightarrow>
          if s0 < 0x80 then (s0, 1)
          else
            (case first s0 of
               None \<Rightarrow> (RuneError, 1)
             | Some (sz, lo, hi) \<Rightarrow>
                 if length s < sz then (RuneError, 1)
                 else
                   let s1 = t ! 0 in
                   if s1 < lo \<or> hi < s1 then (RuneError, 1)
                   else if sz \<le> 2 then (s0 mod 32 * 64 + s1 mod 64, 2)
                   else
                     let s2 = t ! 1 in
                     if s2 < locb \<or> hicb < s2 then (RuneError, 1)
                     else if sz \<le> 3 then (s0 mod 16 * 4096 + s1 mod 64 * 64 + s2 mod 64, 3)
                     else
                       let s3 = t ! 2 in
                       if s3 < locb \<or> hicb < s3 then (RuneError, 1)
                       else (s0 mod 8 * 262144 + s1 mod 64 * 4096 + s2 mod 64 * 64 + s3 mod 64, 4)))"

text \<open>
  The conversion \<open>[]rune(s)\<close>: decode until the string is used up.  Every step
  takes at least one byte.
\<close>

function runes :: "string \<Rightarrow> rune list" where
  "runes s =
     (if s = [] then []
      else (case DecodeRuneInString s of (r, sz) \<Rightarrow> r # runes (drop sz s)))"
  by pat_completeness auto
termination
  by (relation "measure length")
     (auto simp: DecodeRuneInString_def Let_def split: list.splits option.splits if_splits)

text \<open>
  \<open>utf16.Encode\<close>: one code unit for a code point of the basic plane, a surrogate pair
  above it, the replacement character for anything that is no code point.
\<close>

fun Encode :: "rune list \<Rightarrow> uint16 list" where
  "Encode [] = []"
| "Encode (v # s) =
     (if (0 \<le> v \<and> v < surr1) \<or> (surr3 \<le> v \<and> v < surrSelf) then [word_of_int v]
      else if surrSelf \<le> v \<and> v \<le> MaxRune then
        [word_of_int (surr1 + (v - surrSelf) div 1024 mod 1024),
         word_of_int (surr2 + (v - surrSelf) mod 1024)]
      else [word_of_int RuneError]) @ Encode s"

text \<open>
  \<open>syscall.UTF16FromString\<close>: a string with a NUL byte is refused with \<open>EINVAL\<close>;
  any other is encoded with its terminating NUL.  \<open>UTF16PtrFromString\<close> returns the
  address of the first unit of that buffer.
\<close>

definition UTF16FromString :: "'w env \<Rightarrow> string \<Rightarrow> error + uint16 list" where
  "UTF16FromString env s =
     (if CHR 0x00 \<in> set s then Inl (Errno (EINVAL env))
      else Inr (Encode (runes (s @ [CHR 0x00]))))"

definition UTF16PtrFromString :: "'w env \<Rightarrow> string \<Rightarrow> error + uint16 list" where
  "UTF16PtrFromString env s =
     (case UTF16FromString env s of Inl err \<Rightarrow> Inl err | Inr a \<Rightarrow> Inr a)"

text \<open>
  The buffer a successful conversion of \<open>s\<close> produces.
\<close>

definition utf16z :: "string \<Rightarrow> uint16 list" where
  "utf16z s = Encode (runes (s @ [CHR 0x00]))"







subsection \<open>The libraries and their entry points\<close>

definition modcomputenetwork :: string where
  "modcomputenetwork = ''computenetwork.dll''"

definition modiphlpapi :: string where
  "modiphlpapi = ''iphlpapi.dll''"

definition modvmcompute :: string where
  "modvmcompute = ''vmcompute.dll''"

definition procHcnCloseEndpoint :: LazyProc where
  "procHcnCloseEndpoint = NewProc modcomputenetwork ''HcnCloseEndpoint''"

definition procHcnCloseLoadBalancer :: LazyProc where
  "procHcnCloseLoadBalancer = NewProc modcomputenetwork ''HcnCloseLoadBalancer''"

definition procHcnCloseNamespace :: LazyProc where
  "procHcnCloseNamespace = NewProc modcomputenetwork ''HcnCloseNamespace''"

definition procHcnCloseNetwork :: LazyProc where
  "procHcnCloseNetwork = NewProc modcomputenetwork ''HcnCloseNetwork''"

definition procHcnCloseSdnRoute :: LazyProc where
  "procHcnCloseSdnRoute = NewProc modcomputenetwork ''HcnCloseSdnRoute''"

definition procHcnCreateEndpoint :: LazyProc where
  "procHcnCreateEndpoint = NewProc modcomputenetwork ''HcnCreateEndpoint''"

definition procHcnCreateLoadBalancer :: LazyProc where
  "procHcnCreateLoadBalancer = NewProc modcomputenetwork ''HcnCreateLoadBalancer''"

definition procHcnCreateNamespace :: LazyProc where
  "procHcnCreateNamespace = NewProc modcomputenetwork ''HcnCreateNamespace''"

definition procHcnCreateNetwork :: LazyProc where
  "procHcnCreateNetwork = NewProc modcomputenetwork ''HcnCreateNetwork''"

definition procHcnCreateSdnRoute :: LazyProc where
  "procHcnCreateSdnRoute = NewProc modcomputenetwork ''HcnCreateSdnRoute''"

definition procHcnDeleteEndpoint :: LazyProc where
  "procHcnDeleteEndpoint = NewProc modcomputenetwork ''HcnDeleteEndpoint''"

definition procHcnDeleteLoadBalancer :: LazyProc where
  "procHcnDeleteLoadBalancer = NewProc modcomputenetwork ''HcnDeleteLoadBalancer''"

definition procHcnDeleteNamespace :: LazyProc where
  "procHcnDeleteNamespace = NewProc modcomputenetwork ''HcnDeleteNamespace''"

definition procHcnDeleteNetwork :: LazyProc where
  "procHcnDeleteNetwork = NewProc modcomputenetwork ''HcnDeleteNetwork''"

definition procHcnDeleteSdnRoute :: LazyProc where
  "procHcnDeleteSdnRoute = NewProc modcomputenetwork ''HcnDeleteSdnRoute''"

definition procHcnEnumerateEndpoints :: LazyProc where
  "procHcnEnumerateEndpoints = NewProc modcomputenetwork ''HcnEnumerateEndpoints''"

definition procHcnEnumerateLoadBalancers :: LazyProc where
  "procHcnEnumerateLoadBalancers = NewProc modcomputenetwork ''HcnEnumerateLoadBalancers''"

definition procHcnEnumerateNamespaces :: LazyProc where
  "procHcnEnumerateNamespaces = NewProc modcomputenetwork ''HcnEnumerateNamespaces''"

definition procHcnEnumerateNetworks :: LazyProc where
  "procHcnEnumerateNetworks = NewProc modcomputenetwork ''HcnEnumerateNetworks''"

definition procHcnEnumerateSdnRoutes :: LazyProc where
  "procHcnEnumerateSdnRoutes = NewProc modcomputenetwork ''HcnEnumerateSdnRoutes''"

definition procHcnModifyEndpoint :: LazyProc where
  "procHcnModifyEndpoint = NewProc modcomputenetwork ''HcnModifyEndpoint''"

definition procHcnModifyLoadBalancer :: LazyProc where
  "procHcnModifyLoadBalancer = NewProc modcomputenetwork ''HcnModifyLoadBalancer''"

definition procHcnModifyNamespace :: LazyProc where
  "procHcnModifyNamespace = NewProc modcomputenetwork ''HcnModifyNamespace''"

definition procHcnModifyNetwork :: LazyProc where
  "procHcnModifyNetwork = NewProc modcomputenetwork ''HcnModifyNetwork''"

definition procHcnModifySdnRoute :: LazyProc where
  "procHcnModifySdnRoute = NewProc modcomputenetwork ''HcnModifySdnRoute''"

definition procHcnOpenEndpoint :: LazyProc where
  "procHcnOpenEndpoint = NewProc modcomputenetwork ''HcnOpenEndpoint''"

definition procHcnOpenLoadBalancer :: LazyProc where
  "procHcnOpenLoadBalancer = NewProc modcomputenetwork ''HcnOpenLoadBalancer''"

definition procHcnOpenNamespace :: LazyProc where
  "procHcnOpenNamespace = NewProc modcomputenetwork ''HcnOpenNamespace''"

definition procHcnOpenNetwork :: LazyProc where
  "procHcnOpenNetwork = NewProc modcomputenetwork ''HcnOpenNetwork''"

definition procHcnOpenSdnRoute :: LazyProc where
  "procHcnOpenSdnRoute = NewProc modcomputenetwork ''HcnOpenSdnRoute''"

definition procHcnQueryEndpointProperties :: LazyProc where
  "procHcnQueryEndpointProperties = NewProc modcomputenetwork ''HcnQueryEndpointProperties''"

definition procHcnQueryLoadBalancerProperties :: LazyProc where
  "procHcnQueryLoadBalancerProperties = NewProc modcomputenetwork ''HcnQueryLoadBalancerProperties''"

definition procHcnQueryNamespaceProperties :: LazyProc where
  "procHcnQueryNamespaceProperties = NewProc modcomputenetwork ''HcnQueryNamespaceProperties''"

definition procHcnQueryNetworkProperties :: LazyProc where
  "procHcnQueryNetworkProperties = NewProc modcomputenetwork ''HcnQueryNetworkProperties''"

definition procHcnQuerySdnRouteProperties :: LazyProc where
  "procHcnQuerySdnRouteProperties = NewProc modcomputenetwork ''HcnQuerySdnRouteProperties''"

definition procGetCurrentThreadCompartmentId :: LazyProc where
  "procGetCurrentThreadCompartmentId = NewProc modiphlpapi ''GetCurrentThreadCompartmentId''"

definition procSetCurrentThreadCompartmentId :: LazyProc where
  "procSetCurrentThreadCompartmentId = NewProc modiphlpapi ''SetCurrentThreadCompartmentId''"

definition procHNSCall :: LazyProc where
  "procHNSCall = NewProc modvmcompute ''HNSCall''"

subsection \<open>The wrappers\<close>

text \<open>
  Each wrapper is translated on its own, statement by statement.  The named result
  \<open>hr\<close> is what the wrapper returns; \<open>int32(r0)\<close> is the low half of the register read as
  a signed number.  A wrapper with string parameters converts them and then calls its
  twin on the converted buffers, which is therefore defined first; the leading
  underscore of the twin's name (and of \<open>_p0\<close>) is written \<open>u_\<close>, and the
  parameter \<open>id\<close> is written \<open>id'\<close>.
\<close>

definition hcnCloseEndpoint ::
  "'w env \<Rightarrow> uintptr \<Rightarrow> 'w sys \<Rightarrow> error option outcome \<times> 'w sys" where
  "hcnCloseEndpoint env endpoint s =
     (case Find env procHcnCloseEndpoint s of
        (Some hr, s1) \<Rightarrow> (Return (Some hr), s1)
      | (None, s1) \<Rightarrow>
          (case Addr env procHcnCloseEndpoint s1 of
             (Inl e, s2) \<Rightarrow> (Panic e, s2)
           | (Inr trap, s2) \<Rightarrow>
               (case SyscallN env trap [Val endpoint] s2 of
                  (r0, s3) \<Rightarrow>
                    if sint (ucast r0 :: int32) < 0 then
                      (Return
                         (Some (Errno (if r0 AND 0x1fff0000 = 0x00070000 then r0 AND 0xffff else r0))),
                       s3)
                    else (Return None, s3))))"

definition hcnCloseLoadBalancer ::
  "'w env \<Rightarrow> uintptr \<Rightarrow> 'w sys \<Rightarrow> error option outcome \<times> 'w sys" where
  "hcnCloseLoadBalancer env loadBalancer s =
     (case Find env procHcnCloseLoadBalancer s of
        (Some hr, s1) \<Rightarrow> (Return (Some hr), s1)
      | (None, s1) \<Rightarrow>
          (case Addr env procHcnCloseLoadBalancer s1 of
             (Inl e, s2) \<Rightarrow> (Panic e, s2)
           | (Inr trap, s2) \<Rightarrow>
               (case SyscallN env trap [Val loadBalancer] s2 of
                  (r0, s3) \<Rightarrow>
                    if sint (ucast r0 :: int32) < 0 then
                      (Return
                         (Some (Errno (if r0 AND 0x1fff0000 = 0x00070000 then r0 AND 0xffff else r0))),
                       s3)
                    else (Return None, s3))))"

definition hcnCloseNamespace ::
  "'w env \<Rightarrow> uintptr \<Rightarrow> 'w sys \<Rightarrow> error option outcome \<times> 'w sys" where
  "hcnCloseNamespace env namespace s =
     (case Find env procHcnCloseNamespace s of
        (Some hr, s1) \<Rightarrow> (Return (Some hr), s1)
      | (None, s1) \<Rightarrow>
          (case Addr env procHcnCloseNamespace s1 of
             (Inl e, s2) \<Rightarrow> (Panic e, s2)
           | (Inr trap, s2) \<Rightarrow>
               (case SyscallN env trap [Val namespace] s2 of
                  (r0, s3) \<Rightarrow>
                    if sint (ucast r0 :: int32) < 0 then
                      (Return
                         (Some (Errno (if r0 AND 0x1fff0000 = 0x00070000 then r0 AND 0xffff else r0))),
                       s3)
                    else (Return None, s3))))"

definition hcnCloseNetwork ::
  "'w env \<Rightarrow> uintptr \<Rightarrow> 'w sys \<Rightarrow> error option outcome \<times> 'w sys" where
  "hcnCloseNetwork env network s =
     (case Find env procHcnCloseNetwork s of
        (Some hr, s1) \<Rightarrow> (Return (Some hr), s1)
      | (None, s1) \<Rightarrow>
          (case Addr env procHcnCloseNetwork s1 of
             (Inl e, s2) \<Rightarrow> (Panic e, s2)
           | (Inr trap, s2) \<Rightarrow>
               (case SyscallN env trap [Val network] s2 of
                  (r0, s3) \<Rightarrow>
                    if sint (ucast r0 :: int32) < 0 then
                      (Return
                         (Some (Errno (if r0 AND 0x1fff0000 = 0x00070000 then r0 AND 0xffff else r0))),
                       s3)
                    else (Return None, s3))))"

definition hcnCloseRoute ::
  "'w env \<Rightarrow> uintptr \<Rightarrow> 'w sys \<Rightarrow> error option outcome \<times> 'w sys" where
  "hcnCloseRoute env route s =
     (case Find env procHcnCloseSdnRoute s of
        (Some hr, s1) \<Rightarrow> (Return (Some hr), s1)
      | (None, s1) \<Rightarrow>
          (case Addr env procHcnCloseSdnRoute s1 of
             (Inl e, s2) \<Rightarrow> (Panic e, s2)
           | (Inr trap, s2) \<Rightarrow>
               (case SyscallN env trap [Val route] s2 of
                  (r0, s3) \<Rightarrow>
                    if sint (ucast r0 :: int32) < 0 then
                      (Return
                         (Some (Errno (if r0 AND 0x1fff0000 = 0x00070000 then r0 AND 0xffff else r0))),
                       s3)
                    else (Return None, s3))))"

definition u_hcnCreateEndpoint ::
  "'w env \<Rightarrow> uintptr \<Rightarrow> uintptr \<Rightarrow> uint16 list \<Rightarrow> uintptr \<Rightarrow> uintptr \<Rightarrow> 'w sys \<Rightarrow> error option outcome \<times> 'w sys" where
  "u_hcnCreateEndpoint env network id' settings endpoint result s =
     (case Find env procHcnCreateEndpoint s of
        (Some hr, s1) \<Rightarrow> (Return (Some hr), s1)
      | (None, s1) \<Rightarrow>
          (case Addr env procHcnCreateEndpoint s1 of
             (Inl e, s2) \<Rightarrow> (Panic e, s2)
           | (Inr trap, s2) \<Rightarrow>
               (case SyscallN env trap [Val network, Val id', Utf16 settings, Val endpoint, Val result] s2 of
                  (r0, s3) \<Rightarrow>
                    if sint (ucast r0 :: int32) < 0 then
                      (Return
                         (Some (Errno (if r0 AND 0x1fff0000 = 0x00070000 then r0 AND 0xffff else r0))),
                       s3)
                    else (Return None, s3))))"

definition hcnCreateEndpoint ::
  "'w env \<Rightarrow> uintptr \<Rightarrow> uintptr \<Rightarrow> string \<Rightarrow> uintptr \<Rightarrow> uintptr \<Rightarrow> 'w sys \<Rightarrow> error option outcome \<times> 'w sys" where
  "hcnCreateEndpoint env network id' settings endpoint result s =
     (case UTF16PtrFromString env settings of
        Inl hr \<Rightarrow> (Return (Some hr), s)
      | Inr p0 \<Rightarrow>
          u_hcnCreateEndpoint env network id' p0 endpoint result s)"

definition u_hcnCreateLoadBalancer ::
  "'w env \<Rightarrow> uintptr \<Rightarrow> uint16 list \<Rightarrow> uintptr \<Rightarrow> uintptr \<Rightarrow> 'w sys \<Rightarrow> error option outcome \<times> 'w sys" where
  "u_hcnCreateLoadBalancer env id' settings loadBalancer result s =
     (case Find env procHcnCreateLoadBalancer s of
        (Some hr, s1) \<Rightarrow> (Return (Some hr), s1)
      | (None, s1) \<Rightarrow>
          (case Addr env procHcnCreateLoadBalancer s1 of
             (Inl e, s2) \<Rightarrow> (Panic e, s2)
           | (Inr trap, s2) \<Rightarrow>
               (case SyscallN env trap [Val id', Utf16 settings, Val loadBalancer, Val result] s2 of
                  (r0, s3) \<Rightarrow>
                    if sint (ucast r0 :: int32) < 0 then
                      (Return
                         (Some (Errno (if r0 AND 0x1fff0000 = 0x00070000 then r0 AND 0xffff else r0))),
                       s3)
                    else (Return None, s3))))"

definition hcnCreateLoadBalancer ::
  "'w env \<Rightarrow> uintptr \<Rightarrow> string \<Rightarrow> uintptr \<Rightarrow> uintptr \<Rightarrow> 'w sys \<Rightarrow> error option outcome \<times> 'w sys" where
  "hcnCreateLoadBalancer env id' settings loadBalancer result s =
     (case UTF16PtrFromString env settings of
        Inl hr \<Rightarrow> (Return (Some hr), s)
      | Inr p0 \<Rightarrow>
          u_hcnCreateLoadBalancer env id' p0 loadBalancer result s)"

definition u_hcnCreateNamespace ::
  "'w env \<Rightarrow> uintptr \<Rightarrow> uint16 list \<Rightarrow> uintptr \<Rightarrow> uintptr \<Rightarrow> 'w sys \<Rightarrow> error option outcome \<times> 'w sys" where
  "u_hcnCreateNamespace env id' settings namespace result s =
     (case Find env procHcnCreateNamespace s of
        (Some hr, s1) \<Rightarrow> (Return (Some hr), s1)
      | (None, s1) \<Rightarrow>
          (case Addr env procHcnCreateNamespace s1 of
             (Inl e, s2) \<Rightarrow> (Panic e, s2)
           | (Inr trap, s2) \<Rightarrow>
               (case SyscallN env trap [Val id', Utf16 settings, Val namespace, Val result] s2 of
                  (r0, s3) \<Rightarrow>
                    if sint (ucast r0 :: int32) < 0 then
                      (Return
                         (Some (Errno (if r0 AND 0x1fff0000 = 0x00070000 then r0 AND 0xffff else r0))),
                       s3)
                    else (Return None, s3))))"

definition hcnCreateNamespace ::
  "'w env \<Rightarrow> uintptr \<Rightarrow> string \<Rightarrow> uintptr \<Rightarrow> uintptr \<Rightarrow> 'w sys \<Rightarrow> error option outcome \<times> 'w sys" where
  "hcnCreateNamespace env id' settings namespace result s =
     (case UTF16PtrFromString env settings of
        Inl hr \<Rightarrow> (Return (Some hr), s)
      | Inr p0 \<Rightarrow>
          u_hcnCreateNamespace env id' p0 namespace result s)"

definition u_hcnCreateNetwork ::
  "'w env \<Rightarrow> uintptr \<Rightarrow> uint16 list \<Rightarrow> uintptr \<Rightarrow> uintptr \<Rightarrow> 'w sys \<Rightarrow> error option outcome \<times> 'w sys" where
  "u_hcnCreateNetwork env id' settings network result s =
     (case Find env procHcnCreateNetwork s of
        (Some hr, s1) \<Rightarrow> (Return (Some hr), s1)
      | (None, s1) \<Rightarrow>
          (case Addr env procHcnCreateNetwork s1 of
             (Inl e, s2) \<Rightarrow> (Panic e, s2)
           | (Inr trap, s2) \<Rightarrow>
               (case SyscallN env trap [Val id', Utf16 settings, Val network, Val result] s2 of
                  (r0, s3) \<Rightarrow>
                    if sint (ucast r0 :: int32) < 0 then
                      (Return
                         (Some (Errno (if r0 AND 0x1fff0000 = 0x00070000 then r0 AND 0xffff else r0))),
                       s3)
                    else (Return None, s3))))"

definition hcnCreateNetwork ::
  "'w env \<Rightarrow> uintptr \<Rightarrow> string \<Rightarrow> uintptr \<Rightarrow> uintptr \<Rightarrow> 'w sys \<Rightarrow> error option outcome \<times> 'w sys" where
  "hcnCreateNetwork env id' settings network result s =
     (case UTF16PtrFromString env settings of
        Inl hr \<Rightarrow> (Return (Some hr), s)
      | Inr p0 \<Rightarrow>
          u_hcnCreateNetwork env id' p0 network result s)"

definition u_hcnCreateRoute ::
  "'w env \<Rightarrow> uintptr \<Rightarrow> uint16 list \<Rightarrow> uintptr \<Rightarrow> uintptr \<Rightarrow> 'w sys \<Rightarrow> error option outcome \<times> 'w sys" where
  "u_hcnCreateRoute env id' settings route result s =
     (case Find env procHcnCreateSdnRoute s of
        (Some hr, s1) \<Rightarrow> (Return (Some hr), s1)
      | (None, s1) \<Rightarrow>
          (case Addr env procHcnCreateSdnRoute s1 of
             (Inl e, s2) \<Rightarrow> (Panic e, s2)
           | (Inr trap, s2) \<Rightarrow>
               (case SyscallN env trap [Val id', Utf16 settings, Val route, Val result] s2 of
                  (r0, s3) \<Rightarrow>
                    if sint (ucast r0 :: int32) < 0 then
                      (Return
                         (Some (Errno (if r0 AND 0x1fff0000 = 0x00070000 then r0 AND 0xffff else r0))),
                       s3)
                    else (Return None, s3))))"

definition hcnCreateRoute ::
  "'w env \<Rightarrow> uintptr \<Rightarrow> string \<Rightarrow> uintptr \<Rightarrow> uintptr \<Rightarrow> 'w sys \<Rightarrow> error option outcome \<times> 'w sys" where
  "hcnCreateRoute env id' settings route result s =
     (case UTF16PtrFromString env settings of
        Inl hr \<Rightarrow> (Return (Some hr), s)
      | Inr p0 \<Rightarrow>
          u_hcnCreateRoute env id' p0 route result s)"

definition hcnDeleteEndpoint ::
  "'w env \<Rightarrow> uintptr \<Rightarrow> uintptr \<Rightarrow> 'w sys \<Rightarrow> error option outcome \<times> 'w sys" where
  "hcnDeleteEndpoint env id' result s =
     (case Find env procHcnDeleteEndpoint s of
        (Some hr, s1) \<Rightarrow> (Return (Some hr), s1)
      | (None, s1) \<Rightarrow>
          (case Addr env procHcnDeleteEndpoint s1 of
             (Inl e, s2) \<Rightarrow> (Panic e, s2)
           | (Inr trap, s2) \<Rightarrow>
               (case SyscallN env trap [Val id', Val result] s2 of
                  (r0, s3) \<Rightarrow>
                    if sint (ucast r0 :: int32) < 0 then
                      (Return
                         (Some (Errno (if r0 AND 0x1fff0000 = 0x00070000 then r0 AND 0xffff else r0))),
                       s3)
                    else (Return None, s3))))"

definition hcnDeleteLoadBalancer ::
  "'w env \<Rightarrow> uintptr \<Rightarrow> uintptr \<Rightarrow> 'w sys \<Rightarrow> error option outcome \<times> 'w sys" where
  "hcnDeleteLoadBalancer env id' result s =
     (case Find env procHcnDeleteLoadBalancer s of
        (Some hr, s1) \<Rightarrow> (Return (Some hr), s1)
      | (None, s1) \<Rightarrow>
          (case Addr env procHcnDeleteLoadBalancer s1 of
             (Inl e, s2) \<Rightarrow> (Panic e, s2)
           | (Inr trap, s2) \<Rightarrow>
               (case SyscallN env trap [Val id', Val result] s2 of
                  (r0, s3) \<Rightarrow>
                    if sint (ucast r0 :: int32) < 0 then
                      (Return
                         (Some (Errno (if r0 AND 0x1fff0000 = 0x00070000 then r0 AND 0xffff else r0))),
                       s3)
                    else (Return None, s3))))"

definition hcnDeleteNamespace ::
  "'w env \<Rightarrow> uintptr \<Rightarrow> uintptr \<Rightarrow> 'w sys \<Rightarrow> error option outcome \<times> 'w sys" where
  "hcnDeleteNamespace env id' result s =
     (case Find env procHcnDeleteNamespace s of
        (Some hr, s1) \<Rightarrow> (Return (Some hr), s1)
      | (None, s1) \<Rightarrow>
          (case Addr env procHcnDeleteNamespace s1 of
             (Inl e, s2) \<Rightarrow> (Panic e, s2)
           | (Inr trap, s2) \<Rightarrow>
               (case SyscallN env trap [Val id', Val result] s2 of
                  (r0, s3) \<Rightarrow>
                    if sint (ucast r0 :: int32) < 0 then
                      (Return
                         (Some (Errno (if r0 AND 0x1fff0000 = 0x00070000 then r0 AND 0xffff else r0))),
                       s3)
                    else (Return None, s3))))"

definition hcnDeleteNetwork ::
  "'w env \<Rightarrow> uintptr \<Rightarrow> uintptr \<Rightarrow> 'w sys \<Rightarrow> error option outcome \<times> 'w sys" where
  "hcnDeleteNetwork env id' result s =
     (case Find env procHcnDeleteNetwork s of
        (Some hr, s1) \<Rightarrow> (Return (Some hr), s1)
      | (None, s1) \<Rightarrow>
          (case Addr env procHcnDeleteNetwork s1 of
             (Inl e, s2) \<Rightarrow> (Panic e, s2)
           | (Inr trap, s2) \<Rightarrow>
               (case SyscallN env trap [Val id', Val result] s2 of
                  (r0, s3) \<Rightarrow>
                    if sint (ucast r0 :: int32) < 0 then
                      (Return
                         (Some (Errno (if r0 AND 0x1fff0000 = 0x00070000 then r0 AND 0xffff else r0))),
                       s3)
                    else (Return None, s3))))"

definition hcnDeleteRoute ::
  "'w env \<Rightarrow> uintptr \<Rightarrow> uintptr \<Rightarrow> 'w sys \<Rightarrow> error option outcome \<times> 'w sys" where
  "hcnDeleteRoute env id' result s =
     (case Find env procHcnDeleteSdnRoute s of
        (Some hr, s1) \<Rightarrow> (Return (Some hr), s1)
      | (None, s1) \<Rightarrow>
          (case Addr env procHcnDeleteSdnRoute s1 of
             (Inl e, s2) \<Rightarrow> (Panic e, s2)
           | (Inr trap, s2) \<Rightarrow>
               (case SyscallN env trap [Val id', Val result] s2 of
                  (r0, s3) \<Rightarrow>
                    if sint (ucast r0 :: int32) < 0 then
                      (Return
                         (Some (Errno (if r0 AND 0x1fff0000 = 0x00070000 then r0 AND 0xffff else r0))),
                       s3)
                    else (Return None, s3))))"

definition u_hcnEnumerateEndpoints ::
  "'w env \<Rightarrow> uint16 list \<Rightarrow> uintptr \<Rightarrow> uintptr \<Rightarrow> 'w sys \<Rightarrow> error option outcome \<times> 'w sys" where
  "u_hcnEnumerateEndpoints env query endpoints result s =
     (case Find env procHcnEnumerateEndpoints s of
        (Some hr, s1) \<Rightarrow> (Return (Some hr), s1)
      | (None, s1) \<Rightarrow>
          (case Addr env procHcnEnumerateEndpoints s1 of
             (Inl e, s2) \<Rightarrow> (Panic e, s2)
           | (Inr trap, s2) \<Rightarrow>
               (case SyscallN env trap [Utf16 query, Val endpoints, Val result] s2 of
                  (r0, s3) \<Rightarrow>
                    if sint (ucast r0 :: int32) < 0 then
                      (Return
                         (Some (Errno (if r0 AND 0x1fff0000 = 0x00070000 then r0 AND 0xffff else r0))),
                       s3)
                    else (Return None, s3))))"

definition hcnEnumerateEndpoints ::
  "'w env \<Rightarrow> string \<Rightarrow> uintptr \<Rightarrow> uintptr \<Rightarrow> 'w sys \<Rightarrow> error option outcome \<times> 'w sys" where
  "hcnEnumerateEndpoints env query endpoints result s =
     (case UTF16PtrFromString env query of
        Inl hr \<Rightarrow> (Return (Some hr), s)
      | Inr p0 \<Rightarrow>
          u_hcnEnumerateEndpoints env p0 endpoints result s)"

definition u_hcnEnumerateLoadBalancers ::
  "'w env \<Rightarrow> uint16 list \<Rightarrow> uintptr \<Rightarrow> uintptr \<Rightarrow> 'w sys \<Rightarrow> error option outcome \<times> 'w sys" where
  "u_hcnEnumerateLoadBalancers env query loadBalancers result s =
     (case Find env procHcnEnumerateLoadBalancers s of
        (Some hr, s1) \<Rightarrow> (Return (Some hr), s1)
      | (None, s1) \<Rightarrow>
          (case Addr env procHcnEnumerateLoadBalancers s1 of
             (Inl e, s2) \<Rightarrow> (Panic e, s2)
           | (Inr trap, s2) \<Rightarrow>
               (case SyscallN env trap [Utf16 query, Val loadBalancers, Val result] s2 of
                  (r0, s3) \<Rightarrow>
                    if sint (ucast r0 :: int32) < 0 then
                      (Return
                         (Some (Errno (if r0 AND 0x1fff0000 = 0x00070000 then r0 AND 0xffff else r0))),
                       s3)
                    else (Return None, s3))))"

definition hcnEnumerateLoadBalancers ::
  "'w env \<Rightarrow> string \<Rightarrow> uintptr \<Rightarrow> uintptr \<Rightarrow> 'w sys \<Rightarrow> error option outcome \<times> 'w sys" where
  "hcnEnumerateLoadBalancers env query loadBalancers result s =
     (case UTF16PtrFromString env query of
        Inl hr \<Rightarrow> (Return (Some hr), s)
      | Inr p0 \<Rightarrow>
          u_hcnEnumerateLoadBalancers env p0 loadBalancers result s)"

definition u_hcnEnumerateNamespaces ::
  "'w env \<Rightarrow> uint16 list \<Rightarrow> uintptr \<Rightarrow> uintptr \<Rightarrow> 'w sys \<Rightarrow> error option outcome \<times> 'w sys" where
  "u_hcnEnumerateNamespaces env query namespaces result s =
     (case Find env procHcnEnumerateNamespaces s of
        (Some hr, s1) \<Rightarrow> (Return (Some hr), s1)
      | (None, s1) \<Rightarrow>
          (case Addr env procHcnEnumerateNamespaces s1 of
             (Inl e, s2) \<Rightarrow> (Panic e, s2)
           | (Inr trap, s2) \<Rightarrow>
               (case SyscallN env trap [Utf16 query, Val namespaces, Val result] s2 of
                  (r0, s3) \<Rightarrow>
                    if sint (ucast r0 :: int32) < 0 then
                      (Return
                         (Some (Errno (if r0 AND 0x1fff0000 = 0x00070000 then r0 AND 0xffff else r0))),
                       s3)
                    else (Return None, s3))))"

definition hcnEnumerateNamespaces ::
  "'w env \<Rightarrow> string \<Rightarrow> uintptr \<Rightarrow> uintptr \<Rightarrow> 'w sys \<Rightarrow> error option outcome \<times> 'w sys" where
  "hcnEnumerateNamespaces env query namespaces result s =
     (case UTF16PtrFromString env query of
        Inl hr \<Rightarrow> (Return (Some hr), s)
      | Inr p0 \<Rightarrow>
          u_hcnEnumerateNamespaces env p0 namespaces result s)"

definition u_hcnEnumerateNetworks ::
  "'w env \<Rightarrow> uint16 list \<Rightarrow> uintptr \<Rightarrow> uintptr \<Rightarrow> 'w sys \<Rightarrow> error option outcome \<times> 'w sys" where
  "u_hcnEnumerateNetworks env query networks result s =
     (case Find env procHcnEnumerateNetworks s of
        (Some hr, s1) \<Rightarrow> (Return (Some hr), s1)
      | (None, s1) \<Rightarrow>
          (case Addr env procHcnEnumerateNetworks s1 of
             (Inl e, s2) \<Rightarrow> (Panic e, s2)
           | (Inr trap, s2) \<Rightarrow>
               (case SyscallN env trap [Utf16 query, Val networks, Val result] s2 of
                  (r0, s3) \<Rightarrow>
                    if sint (ucast r0 :: int32) < 0 then
                      (Return
                         (Some (Errno (if r0 AND 0x1fff0000 = 0x00070000 then r0 AND 0xffff else r0))),
                       s3)
                    else (Return None, s3))))"

definition hcnEnumerateNetworks ::
  "'w env \<Rightarrow> string \<Rightarrow> uintptr \<Rightarrow> uintptr \<Rightarrow> 'w sys \<Rightarrow> error option outcome \<times> 'w sys" where
  "hcnEnumerateNetworks env query networks result s =
     (case UTF16PtrFromString env query of
        Inl hr \<Rightarrow> (Return (Some hr), s)
      | Inr p0 \<Rightarrow>
          u_hcnEnumerateNetworks env p0 networks result s)"

definition u_hcnEnumerateRoutes ::
  "'w env \<Rightarrow> uint16 list \<Rightarrow> uintptr \<Rightarrow> uintptr \<Rightarrow> 'w sys \<Rightarrow> error option outcome \<times> 'w sys" where
  "u_hcnEnumerateRoutes env query routes result s =
     (case Find env procHcnEnumerateSdnRoutes s of
        (Some hr, s1) \<Rightarrow> (Return (Some hr), s1)
      | (None, s1) \<Rightarrow>
          (case Addr env procHcnEnumerateSdnRoutes s1 of
             (Inl e, s2) \<Rightarrow> (Panic e, s2)
           | (Inr trap, s2) \<Rightarrow>
               (case SyscallN env trap [Utf16 query, Val routes, Val result] s2 of
                  (r0, s3) \<Rightarrow>
                    if sint (ucast r0 :: int32) < 0 then
                      (Return
                         (Some (Errno (if r0 AND 0x1fff0000 = 0x00070000 then r0 AND 0xffff else r0))),
                       s3)
                    else (Return None, s3))))"

definition hcnEnumerateRoutes ::
  "'w env \<Rightarrow> string \<Rightarrow> uintptr \<Rightarrow> uintptr \<Rightarrow> 'w sys \<Rightarrow> error option outcome \<times> 'w sys" where
  "hcnEnumerateRoutes env query routes result s =
     (case UTF16PtrFromString env query of
        Inl hr \<Rightarrow> (Return (Some hr), s)
      | Inr p0 \<Rightarrow>
          u_hcnEnumerateRoutes env p0 routes result s)"

definition u_hcnModifyEndpoint ::
  "'w env \<Rightarrow> uintptr \<Rightarrow> uint16 list \<Rightarrow> uintptr \<Rightarrow> 'w sys \<Rightarrow> error option outcome \<times> 'w sys" where
  "u_hcnModifyEndpoint env endpoint settings result s =
     (case Find env procHcnModifyEndpoint s of
        (Some hr, s1) \<Rightarrow> (Return (Some hr), s1)
      | (None, s1) \<Rightarrow>
          (case Addr env procHcnModifyEndpoint s1 of
             (Inl e, s2) \<Rightarrow> (Panic e, s2)
           | (Inr trap, s2) \<Rightarrow>
               (case SyscallN env trap [Val endpoint, Utf16 settings, Val result] s2 of
                  (r0, s3) \<Rightarrow>
                    if sint (ucast r0 :: int32) < 0 then
                      (Return
                         (Some (Errno (if r0 AND 0x1fff0000 = 0x00070000 then r0 AND 0xffff else r0))),
                       s3)
                    else (Return None, s3))))"

definition hcnModifyEndpoint ::
  "'w env \<Rightarrow> uintptr \<Rightarrow> string \<Rightarrow> uintptr \<Rightarrow> 'w sys \<Rightarrow> error option outcome \<times> 'w sys" where
  "hcnModifyEndpoint env endpoint settings result s =
     (case UTF16PtrFromString env settings of
        Inl hr \<Rightarrow> (Return (Some hr), s)
      | Inr p0 \<Rightarrow>
          u_hcnModifyEndpoint env endpoint p0 result s)"

definition u_hcnModifyLoadBalancer ::
  "'w env \<Rightarrow> uintptr \<Rightarrow> uint16 list \<Rightarrow> uintptr \<Rightarrow> 'w sys \<Rightarrow> error option outcome \<times> 'w sys" where
  "u_hcnModifyLoadBalancer env loadBalancer settings result s =
     (case Find env procHcnModifyLoadBalancer s of
        (Some hr, s1) \<Rightarrow> (Return (Some hr), s1)
      | (None, s1) \<Rightarrow>
          (case Addr env procHcnModifyLoadBalancer s1 of
             (Inl e, s2) \<Rightarrow> (Panic e, s2)
           | (Inr trap, s2) \<Rightarrow>
               (case SyscallN env trap [Val loadBalancer, Utf16 settings, Val result] s2 of
                  (r0, s3) \<Rightarrow>
                    if sint (ucast r0 :: int32) < 0 then
                      (Return
                         (Some (Errno (if r0 AND 0x1fff0000 = 0x00070000 then r0 AND 0xffff else r0))),
                       s3)
                    else (Return None, s3))))"

definition hcnModifyLoadBalancer ::
  "'w env \<Rightarrow> uintptr \<Rightarrow> string \<Rightarrow> uintptr \<Rightarrow> 'w sys \<Rightarrow> error option outcome \<times> 'w sys" where
  "hcnModifyLoadBalancer env loadBalancer settings result s =
     (case UTF16PtrFromString env settings of
        Inl hr \<Rightarrow> (Return (Some hr), s)
      | Inr p0 \<Rightarrow>
          u_hcnModifyLoadBalancer env loadBalancer p0 result s)"

definition u_hcnModifyNamespace ::
  "'w env \<Rightarrow> uintptr \<Rightarrow> uint16 list \<Rightarrow> uintptr \<Rightarrow> 'w sys \<Rightarrow> error option outcome \<times> 'w sys" where
  "u_hcnModifyNamespace env namespace settings result s =
     (case Find env procHcnModifyNamespace s of
        (Some hr, s1) \<Rightarrow> (Return (Some hr), s1)
      | (None, s1) \<Rightarrow>
          (case Addr env procHcnModifyNamespace s1 of
             (Inl e, s2) \<Rightarrow> (Panic e, s2)
           | (Inr trap, s2) \<Rightarrow>
               (case SyscallN env trap [Val namespace, Utf16 settings, Val result] s2 of
                  (r0, s3) \<Rightarrow>
                    if sint (ucast r0 :: int32) < 0 then
                      (Return
                         (Some (Errno (if r0 AND 0x1fff0000 = 0x00070000 then r0 AND 0xffff else r0))),
                       s3)
                    else (Return None, s3))))"

definition hcnModifyNamespace ::
  "'w env \<Rightarrow> uintptr \<Rightarrow> string \<Rightarrow> uintptr \<Rightarrow> 'w sys \<Rightarrow> error option outcome \<times> 'w sys" where
  "hcnModifyNamespace env namespace settings result s =
     (case UTF16PtrFromString env settings of
        Inl hr \<Rightarrow> (Return (Some hr), s)
      | Inr p0 \<Rightarrow>
          u_hcnModifyNamespace env namespace p0 result s)"

definition u_hcnModifyNetwork ::
  "'w env \<Rightarrow> uintptr \<Rightarrow> uint16 list \<Rightarrow> uintptr \<Rightarrow> 'w sys \<Rightarrow> error option outcome \<times> 'w sys" where
  "u_hcnModifyNetwork env network settings result s =
     (case Find env procHcnModifyNetwork s of
        (Some hr, s1) \<Rightarrow> (Return (Some hr), s1)
      | (None, s1) \<Rightarrow>
          (case Addr env procHcnModifyNetwork s1 of
             (Inl e, s2) \<Rightarrow> (Panic e, s2)
           | (Inr trap, s2) \<Rightarrow>
               (case SyscallN env trap [Val network, Utf16 settings, Val result] s2 of
                  (r0, s3) \<Rightarrow>
                    if sint (ucast r0 :: int32) < 0 then
                      (Return
                         (Some (Errno (if r0 AND 0x1fff0000 = 0x00070000 then r0 AND 0xffff else r0))),
                       s3)
                    else (Return None, s3))))"

definition hcnModifyNetwork ::
  "'w env \<Rightarrow> uintptr \<Rightarrow> string \<Rightarrow> uintptr \<Rightarrow> 'w sys \<Rightarrow> error option outcome \<times> 'w sys" where
  "hcnModifyNetwork env network settings result s =
     (case UTF16PtrFromString env settings of
        Inl hr \<Rightarrow> (Return (Some hr), s)
      | Inr p0 \<Rightarrow>
          u_hcnModifyNetwork env network p0 result s)"

definition u_hcnModifyRoute ::
  "'w env \<Rightarrow> uintptr \<Rightarrow> uint16 list \<Rightarrow> uintptr \<Rightarrow> 'w sys \<Rightarrow> error option outcome \<times> 'w sys" where
  "u_hcnModifyRoute env route settings result s =
     (case Find env procHcnModifySdnRoute s of
        (Some hr, s1) \<Rightarrow> (Return (Some hr), s1)
      | (None, s1) \<Rightarrow>
          (case Addr env procHcnModifySdnRoute s1 of
             (Inl e, s2) \<Rightarrow> (Panic e, s2)
           | (Inr trap, s2) \<Rightarrow>
               (case SyscallN env trap [Val route, Utf16 settings, Val result] s2 of
                  (r0, s3) \<Rightarrow>
                    if sint (ucast r0 :: int32) < 0 then
                      (Return
                         (Some (Errno (if r0 AND 0x1fff0000 = 0x00070000 then r0 AND 0xffff else r0))),
                       s3)
                    else (Return None, s3))))"

definition hcnModifyRoute ::
  "'w env \<Rightarrow> uintptr \<Rightarrow> string \<Rightarrow> uintptr \<Rightarrow> 'w sys \<Rightarrow> error option outcome \<times> 'w sys" where
  "hcnModifyRoute env route settings result s =
     (case UTF16PtrFromString env settings of
        Inl hr \<Rightarrow> (Return (Some hr), s)
      | Inr p0 \<Rightarrow>
          u_hcnModifyRoute env route p0 result s)"

definition hcnOpenEndpoint ::
  "'w env \<Rightarrow> uintptr \<Rightarrow> uintptr \<Rightarrow> uintptr \<Rightarrow> 'w sys \<Rightarrow> error option outcome \<times> 'w sys" where
  "hcnOpenEndpoint env id' endpoint result s =
     (case Find env procHcnOpenEndpoint s of
        (Some hr, s1) \<Rightarrow> (Return (Some hr), s1)
      | (None, s1) \<Rightarrow>
          (case Addr env procHcnOpenEndpoint s1 of
             (Inl e, s2) \<Rightarrow> (Panic e, s2)
           | (Inr trap, s2) \<Rightarrow>
               (case SyscallN env trap [Val id', Val endpoint, Val result] s2 of
                  (r0, s3) \<Rightarrow>
                    if sint (ucast r0 :: int32) < 0 then
                      (Return
                         (Some (Errno (if r0 AND 0x1fff0000 = 0x00070000 then r0 AND 0xffff else r0))),
                       s3)
                    else (Return None, s3))))"

definition hcnOpenLoadBalancer ::
  "'w env \<Rightarrow> uintptr \<Rightarrow> uintptr \<Rightarrow> uintptr \<Rightarrow> 'w sys \<Rightarrow> error option outcome \<times> 'w sys" where
  "hcnOpenLoadBalancer env id' loadBalancer result s =
     (case Find env procHcnOpenLoadBalancer s of
        (Some hr, s1) \<Rightarrow> (Return (Some hr), s1)
      | (None, s1) \<Rightarrow>
          (case Addr env procHcnOpenLoadBalancer s1 of
             (Inl e, s2) \<Rightarrow> (Panic e, s2)
           | (Inr trap, s2) \<Rightarrow>
               (case SyscallN env trap [Val id', Val loadBalancer, Val result] s2 of
                  (r0, s3) \<Rightarrow>
                    if sint (ucast r0 :: int32) < 0 then
                      (Return
                         (Some (Errno (if r0 AND 0x1fff0000 = 0x00070000 then r0 AND 0xffff else r0))),
                       s3)
                    else (Return None, s3))))"

definition hcnOpenNamespace ::
  "'w env \<Rightarrow> uintptr \<Rightarrow> uintptr \<Rightarrow> uintptr \<Rightarrow> 'w sys \<Rightarrow> error option outcome \<times> 'w sys" where
  "hcnOpenNamespace env id' namespace result s =
     (case Find env procHcnOpenNamespace s of
        (Some hr, s1) \<Rightarrow> (Return (Some hr), s1)
      | (None, s1) \<Rightarrow>
          (case Addr env procHcnOpenNamespace s1 of
             (Inl e, s2) \<Rightarrow> (Panic e, s2)
           | (Inr trap, s2) \<Rightarrow>
               (case SyscallN env trap [Val id', Val namespace, Val result] s2 of
                  (r0, s3) \<Rightarrow>
                    if sint (ucast r0 :: int32) < 0 then
                      (Return
                         (Some (Errno (if r0 AND 0x1fff0000 = 0x00070000 then r0 AND 0xffff else r0))),
                       s3)
                    else (Return None, s3))))"

definition hcnOpenNetwork ::
  "'w env \<Rightarrow> uintptr \<Rightarrow> uintptr \<Rightarrow> uintptr \<Rightarrow> 'w sys \<Rightarrow> error option outcome \<times> 'w sys" where
  "hcnOpenNetwork env id' network result s =
     (case Find env procHcnOpenNetwork s of
        (Some hr, s1) \<Rightarrow> (Return (Some hr), s1)
      | (None, s1) \<Rightarrow>
          (case Addr env procHcnOpenNetwork s1 of
             (Inl e, s2) \<Rightarrow> (Panic e, s2)
           | (Inr trap, s2) \<Rightarrow>
               (case SyscallN env trap [Val id', Val network, Val result] s2 of
                  (r0, s3) \<Rightarrow>
                    if sint (ucast r0 :: int32) < 0 then
                      (Return
                         (Some (Errno (if r0 AND 0x1fff0000 = 0x00070000 then r0 AND 0xffff else r0))),
                       s3)
                    else (Return None, s3))))"

definition hcnOpenRoute ::
  "'w env \<Rightarrow> uintptr \<Rightarrow> uintptr \<Rightarrow> uintptr \<Rightarrow> 'w sys \<Rightarrow> error option outcome \<times> 'w sys" where
  "hcnOpenRoute env id' route result s =
     (case Find env procHcnOpenSdnRoute s of
        (Some hr, s1) \<Rightarrow> (Return (Some hr), s1)
      | (None, s1) \<Rightarrow>
          (case Addr env procHcnOpenSdnRoute s1 of
             (Inl e, s2) \<Rightarrow> (Panic e, s2)
           | (Inr trap, s2) \<Rightarrow>
               (case SyscallN env trap [Val id', Val route, Val result] s2 of
                  (r0, s3) \<Rightarrow>
                    if sint (ucast r0 :: int32) < 0 then
                      (Return
                         (Some (Errno (if r0 AND 0x1fff0000 = 0x00070000 then r0 AND 0xffff else r0))),
                       s3)
                    else (Return None, s3))))"

definition u_hcnQueryEndpointProperties ::
  "'w env \<Rightarrow> uintptr \<Rightarrow> uint16 list \<Rightarrow> uintptr \<Rightarrow> uintptr \<Rightarrow> 'w sys \<Rightarrow> error option outcome \<times> 'w sys" where
  "u_hcnQueryEndpointProperties env endpoint query properties result s =
     (case Find env procHcnQueryEndpointProperties s of
        (Some hr, s1) \<Rightarrow> (Return (Some hr), s1)
      | (None, s1) \<Rightarrow>
          (case Addr env procHcnQueryEndpointProperties s1 of
             (Inl e, s2) \<Rightarrow> (Panic e, s2)
           | (Inr trap, s2) \<Rightarrow>
               (case SyscallN env trap [Val endpoint, Utf16 query, Val properties, Val result] s2 of
                  (r0, s3) \<Rightarrow>
                    if sint (ucast r0 :: int32) < 0 then
                      (Return
                         (Some (Errno (if r0 AND 0x1fff0000 = 0x00070000 then r0 AND 0xffff else r0))),
                       s3)
                    else (Return None, s3))))"

definition hcnQueryEndpointProperties ::
  "'w env \<Rightarrow> uintptr \<Rightarrow> string \<Rightarrow> uintptr \<Rightarrow> uintptr \<Rightarrow> 'w sys \<Rightarrow> error option outcome \<times> 'w sys" where
  "hcnQueryEndpointProperties env endpoint query properties result s =
     (case UTF16PtrFromString env query of
        Inl hr \<Rightarrow> (Return (Some hr), s)
      | Inr p0 \<Rightarrow>
          u_hcnQueryEndpointProperties env endpoint p0 properties result s)"

definition u_hcnQueryLoadBalancerProperties ::
  "'w env \<Rightarrow> uintptr \<Rightarrow> uint16 list \<Rightarrow> uintptr \<Rightarrow> uintptr \<Rightarrow> 'w sys \<Rightarrow> error option outcome \<times> 'w sys" where
  "u_hcnQueryLoadBalancerProperties env loadBalancer query properties result s =
     (case Find env procHcnQueryLoadBalancerProperties s of
        (Some hr, s1) \<Rightarrow> (Return (Some hr), s1)
      | (None, s1) \<Rightarrow>
          (case Addr env procHcnQueryLoadBalancerProperties s1 of
             (Inl e, s2) \<Rightarrow> (Panic e, s2)
           | (Inr trap, s2) \<Rightarrow>
               (case SyscallN env trap [Val loadBalancer, Utf16 query, Val properties, Val result] s2 of
                  (r0, s3) \<Rightarrow>
                    if sint (ucast r0 :: int32) < 0 then
                      (Return
                         (Some (Errno (if r0 AND 0x1fff0000 = 0x00070000 then r0 AND 0xffff else r0))),
                       s3)
                    else (Return None, s3))))"

definition hcnQueryLoadBalancerProperties ::
  "'w env \<Rightarrow> uintptr \<Rightarrow> string \<Rightarrow> uintptr \<Rightarrow> uintptr \<Rightarrow> 'w sys \<Rightarrow> error option outcome \<times> 'w sys" where
  "hcnQueryLoadBalancerProperties env loadBalancer query properties result s =
     (case UTF16PtrFromString env query of
        Inl hr \<Rightarrow> (Return (Some hr), s)
      | Inr p0 \<Rightarrow>
          u_hcnQueryLoadBalancerProperties env loadBalancer p0 properties result s)"

definition u_hcnQueryNamespaceProperties ::
  "'w env \<Rightarrow> uintptr \<Rightarrow> uint16 list \<Rightarrow> uintptr \<Rightarrow> uintptr \<Rightarrow> 'w sys \<Rightarrow> error option outcome \<times> 'w sys" where
  "u_hcnQueryNamespaceProperties env namespace query properties result s =
     (case Find env procHcnQueryNamespaceProperties s of
        (Some hr, s1) \<Rightarrow> (Return (Some hr), s1)
      | (None, s1) \<Rightarrow>
          (case Addr env procHcnQueryNamespaceProperties s1 of
             (Inl e, s2) \<Rightarrow> (Panic e, s2)
           | (Inr trap, s2) \<Rightarrow>
               (case SyscallN env trap [Val namespace, Utf16 query, Val properties, Val result] s2 of
                  (r0, s3) \<Rightarrow>
                    if sint (ucast r0 :: int32) < 0 then
                      (Return
                         (Some (Errno (if r0 AND 0x1fff0000 = 0x00070000 then r0 AND 0xffff else r0))),
                       s3)
                    else (Return None, s3))))"

definition hcnQueryNamespaceProperties ::
  "'w env \<Rightarrow> uintptr \<Rightarrow> string \<Rightarrow> uintptr \<Rightarrow> uintptr \<Rightarrow> 'w sys \<Rightarrow> error option outcome \<times> 'w sys" where
  "hcnQueryNamespaceProperties env namespace query properties result s =
     (case UTF16PtrFromString env query of
        Inl hr \<Rightarrow> (Return (Some hr), s)
      | Inr p0 \<Rightarrow>
          u_hcnQueryNamespaceProperties env namespace p0 properties result s)"

definition u_hcnQueryNetworkProperties ::
  "'w env \<Rightarrow> uintptr \<Rightarrow> uint16 list \<Rightarrow> uintptr \<Rightarrow> uintptr \<Rightarrow> 'w sys \<Rightarrow> error option outcome \<times> 'w sys" where
  "u_hcnQueryNetworkProperties env network query properties result s =
     (case Find env procHcnQueryNetworkProperties s of
        (Some hr, s1) \<Rightarrow> (Return (Some hr), s1)
      | (None, s1) \<Rightarrow>
          (case Addr env procHcnQueryNetworkProperties s1 of
             (Inl e, s2) \<Rightarrow> (Panic e, s2)
           | (Inr trap, s2) \<Rightarrow>
               (case SyscallN env trap [Val network, Utf16 query, Val properties, Val result] s2 of
                  (r0, s3) \<Rightarrow>
                    if sint (ucast r0 :: int32) < 0 then
                      (Return
                         (Some (Errno (if r0 AND 0x1fff0000 = 0x00070000 then r0 AND 0xffff else r0))),
                       s3)
                    else (Return None, s3))))"

definition hcnQueryNetworkProperties ::
  "'w env \<Rightarrow> uintptr \<Rightarrow> string \<Rightarrow> uintptr \<Rightarrow> uintptr \<Rightarrow> 'w sys \<Rightarrow> error option outcome \<times> 'w sys" where
  "hcnQueryNetworkProperties env network query properties result s =
     (case UTF16PtrFromString env query of
        Inl hr \<Rightarrow> (Return (Some hr), s)
      | Inr p0 \<Rightarrow>
          u_hcnQueryNetworkProperties env network p0 properties result s)"

definition u_hcnQueryRouteProperties ::
  "'w env \<Rightarrow> uintptr \<Rightarrow> uint16 list \<Rightarrow> uintptr \<Rightarrow> uintptr \<Rightarrow> 'w sys \<Rightarrow> error option outcome \<times> 'w sys" where
  "u_hcnQueryRouteProperties env route query properties result s =
     (case Find env procHcnQuerySdnRouteProperties s of
        (Some hr, s1) \<Rightarrow> (Return (Some hr), s1)
      | (None, s1) \<Rightarrow>
          (case Addr env procHcnQuerySdnRouteProperties s1 of
             (Inl e, s2) \<Rightarrow> (Panic e, s2)
           | (Inr trap, s2) \<Rightarrow>
               (case SyscallN env trap [Val route, Utf16 query, Val properties, Val result] s2 of
                  (r0, s3) \<Rightarrow>
                    if sint (ucast r0 :: int32) < 0 then
                      (Return
                         (Some (Errno (if r0 AND 0x1fff0000 = 0x00070000 then r0 AND 0xffff else r0))),
                       s3)
                    else (Return None, s3))))"

definition hcnQueryRouteProperties ::
  "'w env \<Rightarrow> uintptr \<Rightarrow> string \<Rightarrow> uintptr \<Rightarrow> uintptr \<Rightarrow> 'w sys \<Rightarrow> error option outcome \<times> 'w sys" where
  "hcnQueryRouteProperties env route query properties result s =
     (case UTF16PtrFromString env query of
        Inl hr \<Rightarrow> (Return (Some hr), s)
      | Inr p0 \<Rightarrow>
          u_hcnQueryRouteProperties env route p0 properties result s)"

definition GetCurrentThreadCompartmentId ::
  "'w env \<Rightarrow> 'w sys \<Rightarrow> uint32 outcome \<times> 'w sys" where
  "GetCurrentThreadCompartmentId env s =
     (case Addr env procGetCurrentThreadCompartmentId s of
        (Inl e, s2) \<Rightarrow> (Panic e, s2)
      | (Inr trap, s2) \<Rightarrow>
          (case SyscallN env trap [] s2 of
             (r0, s3) \<Rightarrow> (Return (ucast r0 :: uint32), s3)))"

definition SetCurrentThreadCompartmentId ::
  "'w env \<Rightarrow> uint32 \<Rightarrow> 'w sys \<Rightarrow> error option outcome \<times> 'w sys" where
  "SetCurrentThreadCompartmentId env compartmentId s =
     (case Addr env procSetCurrentThreadCompartmentId s of
        (Inl e, s2) \<Rightarrow> (Panic e, s2)
      | (Inr trap, s2) \<Rightarrow>
          (case SyscallN env trap [Val (ucast compartmentId)] s2 of
             (r0, s3) \<Rightarrow>
               if sint (ucast r0 :: int32) < 0 then
                 (Return
                    (Some (Errno (if r0 AND 0x1fff0000 = 0x00070000 then r0 AND 0xffff else r0))),
                  s3)
               else (Return None, s3)))"

definition uu_hnsCall ::
  "'w env \<Rightarrow> uint16 list \<Rightarrow> uint16 list \<Rightarrow> uint16 list \<Rightarrow> uintptr \<Rightarrow> 'w sys \<Rightarrow> error option outcome \<times> 'w sys" where
  "uu_hnsCall env method path object response s =
     (case Find env procHNSCall s of
        (Some hr, s1) \<Rightarrow> (Return (Some hr), s1)
      | (None, s1) \<Rightarrow>
          (case Addr env procHNSCall s1 of
             (Inl e, s2) \<Rightarrow> (Panic e, s2)
           | (Inr trap, s2) \<Rightarrow>
               (case SyscallN env trap [Utf16 method, Utf16 path, Utf16 object, Val response] s2 of
                  (r0, s3) \<Rightarrow>
                    if sint (ucast r0 :: int32) < 0 then
                      (Return
                         (Some (Errno (if r0 AND 0x1fff0000 = 0x00070000 then r0 AND 0xffff else r0))),
                       s3)
                    else (Return None, s3))))"

definition u_hnsCall ::
  "'w env \<Rightarrow> string \<Rightarrow> string \<Rightarrow> string \<Rightarrow> uintptr \<Rightarrow> 'w sys \<Rightarrow> error option outcome \<times> 'w sys" where
  "u_hnsCall env method path object response s =
     (case UTF16PtrFromString env method of
        Inl hr \<Rightarrow> (Return (Some hr), s)
      | Inr p0 \<Rightarrow>
          (case UTF16PtrFromString env path of
             Inl hr \<Rightarrow> (Return (Some hr), s)
           | Inr p1 \<Rightarrow>
               (case UTF16PtrFromString env object of
                  Inl hr \<Rightarrow> (Return (Some hr), s)
                | Inr p2 \<Rightarrow>
                    uu_hnsCall env p0 p1 p2 response s)))"

subsection \<open>All wrappers at once\<close>

text \<open>
  To speak about every wrapper in one statement, the table of the wrappers that return an
  \<open>error\<close>.  \<open>wrapper g p strs args h f\<close> says that \<open>f\<close> is a call of one of them
  with its arguments filled in, and gives what can be read off the source text of that
  wrapper: whether it asks \<open>Find\<close> before it uses \<open>Addr\<close> (\<open>g\<close>), the entry point it
  redeems (\<open>p\<close>), its string arguments in the order it converts them (\<open>strs\<close>), the
  arguments it hands to \<open>SyscallN\<close> (\<open>args\<close>, with \<open>utf16z x\<close> for the buffer
  converted from the string \<open>x\<close>), and its leading handle parameter if it has one
  (\<open>h\<close>).  \<open>GetCurrentThreadCompartmentId\<close>, the one wrapper without an error result,
  stays apart.
\<close>

inductive wrapper ::
  "bool \<Rightarrow> LazyProc \<Rightarrow> string list \<Rightarrow> arg list \<Rightarrow> uintptr option \<Rightarrow>
   ('w env \<Rightarrow> 'w sys \<Rightarrow> error option outcome \<times> 'w sys) \<Rightarrow> bool" where
  w_hcnCloseEndpoint:
    "wrapper True procHcnCloseEndpoint []
       [Val endpoint]
       (Some endpoint)
       (\<lambda>env. hcnCloseEndpoint env endpoint)"
| w_hcnCloseLoadBalancer:
    "wrapper True procHcnCloseLoadBalancer []
       [Val loadBalancer]
       (Some loadBalancer)
       (\<lambda>env. hcnCloseLoadBalancer env loadBalancer)"
| w_hcnCloseNamespace:
    "wrapper True procHcnCloseNamespace []
       [Val namespace]
       (Some namespace)
       (\<lambda>env. hcnCloseNamespace env namespace)"
| w_hcnCloseNetwork:
    "wrapper True procHcnCloseNetwork []
       [Val network]
       (Some network)
       (\<lambda>env. hcnCloseNetwork env network)"
| w_hcnCloseRoute:
    "wrapper True procHcnCloseSdnRoute []
       [Val route]
       (Some route)
       (\<lambda>env. hcnCloseRoute env route)"
| w_u_hcnCreateEndpoint:
    "wrapper True procHcnCreateEndpoint []
       [Val network, Val id', Utf16 settings, Val endpoint, Val result]
       (Some network)
       (\<lambda>env. u_hcnCreateEndpoint env network id' settings endpoint result)"
| w_hcnCreateEndpoint:
    "wrapper True procHcnCreateEndpoint [settings]
       [Val network, Val id', Utf16 (utf16z settings), Val endpoint, Val result]
       (Some network)
       (\<lambda>env. hcnCreateEndpoint env network id' settings endpoint result)"
| w_u_hcnCreateLoadBalancer:
    "wrapper True procHcnCreateLoadBalancer []
       [Val id', Utf16 settings, Val loadBalancer, Val result]
       None
       (\<lambda>env. u_hcnCreateLoadBalancer env id' settings loadBalancer result)"
| w_hcnCreateLoadBalancer:
    "wrapper True procHcnCreateLoadBalancer [settings]
       [Val id', Utf16 (utf16z settings), Val loadBalancer, Val result]
       None
       (\<lambda>env. hcnCreateLoadBalancer env id' settings loadBalancer result)"
| w_u_hcnCreateNamespace:
    "wrapper True procHcnCreateNamespace []
       [Val id', Utf16 settings, Val namespace, Val result]
       None
       (\<lambda>env. u_hcnCreateNamespace env id' settings namespace result)"
| w_hcnCreateNamespace:
    "wrapper True procHcnCreateNamespace [settings]
       [Val id', Utf16 (utf16z settings), Val namespace, Val result]
       None
       (\<lambda>env. hcnCreateNamespace env id' settings namespace result)"
| w_u_hcnCreateNetwork:
    "wrapper True procHcnCreateNetwork []
       [Val id', Utf16 settings, Val network, Val result]
       None
       (\<lambda>env. u_hcnCreateNetwork env id' settings network result)"
| w_hcnCreateNetwork:
    "wrapper True procHcnCreateNetwork [settings]
       [Val id', Utf16 (utf16z settings), Val network, Val result]
       None
       (\<lambda>env. hcnCreateNetwork env id' settings network result)"
| w_u_hcnCreateRoute:
    "wrapper True procHcnCreateSdnRoute []
       [Val id', Utf16 settings, Val route, Val result]
       None
       (\<lambda>env. u_hcnCreateRoute env id' settings route result)"
| w_hcnCreateRoute:
    "wrapper True procHcnCreateSdnRoute [settings]
       [Val id', Utf16 (utf16z settings), Val route, Val result]
       None
       (\<lambda>env. hcnCreateRoute env id' settings route result)"
| w_hcnDeleteEndpoint:
    "wrapper True procHcnDeleteEndpoint []
       [Val id', Val result]
       None
       (\<lambda>env. hcnDeleteEndpoint env id' result)"
| w_hcnDeleteLoadBalancer:
    "wrapper True procHcnDeleteLoadBalancer []
       [Val id', Val result]
       None
       (\<lambda>env. hcnDeleteLoadBalancer env id' result)"
| w_hcnDeleteNamespace:
    "wrapper True procHcnDeleteNamespace []
       [Val id', Val result]
       None
       (\<lambda>env. hcnDeleteNamespace env id' result)"
| w_hcnDeleteNetwork:
    "wrapper True procHcnDeleteNetwork []
       [Val id', Val result]
       None
       (\<lambda>env. hcnDeleteNetwork env id' result)"
| w_hcnDeleteRoute:
    "wrapper True procHcnDeleteSdnRoute []
       [Val id', Val result]
       None
       (\<lambda>env. hcnDeleteRoute env id' result)"
| w_u_hcnEnumerateEndpoints:
    "wrapper True procHcnEnumerateEndpoints []
       [Utf16 query, Val endpoints, Val result]
       None
       (\<lambda>env. u_hcnEnumerateEndpoints env query endpoints result)"
| w_hcnEnumerateEndpoints:
    "wrapper True procHcnEnumerateEndpoints [query]
       [Utf16 (utf16z query), Val endpoints, Val result]
       None
       (\<lambda>env. hcnEnumerateEndpoints env query endpoints result)"
| w_u_hcnEnumerateLoadBalancers:
    "wrapper True procHcnEnumerateLoadBalancers []
       [Utf16 query, Val loadBalancers, Val result]
       None
       (\<lambda>env. u_hcnEnumerateLoadBalancers env query loadBalancers result)"
| w_hcnEnumerateLoadBalancers:
    "wrapper True procHcnEnumerateLoadBalancers [query]
       [Utf16 (utf16z query), Val loadBalancers, Val result]
       None
       (\<lambda>env. hcnEnumerateLoadBalancers env query loadBalancers result)"
| w_u_hcnEnumerateNamespaces:
    "wrapper True procHcnEnumerateNamespaces []
       [Utf16 query, Val namespaces, Val result]
       None
       (\<lambda>env. u_hcnEnumerateNamespaces env query namespaces result)"
| w_hcnEnumerateNamespaces:
    "wrapper True procHcnEnumerateNamespaces [query]
       [Utf16 (utf16z query), Val namespaces, Val result]
       None
       (\<lambda>env. hcnEnumerateNamespaces env query namespaces result)"
| w_u_hcnEnumerateNetworks:
    "wrapper True procHcnEnumerateNetworks []
       [Utf16 query, Val networks, Val result]
       None
       (\<lambda>env. u_hcnEnumerateNetworks env query networks result)"
| w_hcnEnumerateNetworks:
    "wrapper True procHcnEnumerateNetworks [query]
       [Utf16 (utf16z query), Val networks, Val result]
       None
       (\<lambda>env. hcnEnumerateNetworks env query networks result)"
| w_u_hcnEnumerateRoutes:
    "wrapper True procHcnEnumerateSdnRoutes []
       [Utf16 query, Val routes, Val result]
       None
       (\<lambda>env. u_hcnEnumerateRoutes env query routes result)"
| w_hcnEnumerateRoutes:
    "wrapper True procHcnEnumerateSdnRoutes [query]
       [Utf16 (utf16z query), Val routes, Val result]
       None
       (\<lambda>env. hcnEnumerateRoutes env query routes result)"
| w_u_hcnModifyEndpoint:
    "wrapper True procHcnModifyEndpoint []
       [Val endpoint, Utf16 settings, Val result]
       (Some endpoint)
       (\<lambda>env. u_hcnModifyEndpoint env endpoint settings result)"
| w_hcnModifyEndpoint:
    "wrapper True procHcnModifyEndpoint [settings]
       [Val endpoint, Utf16 (utf16z settings), Val result]
       (Some endpoint)
       (\<lambda>env. hcnModifyEndpoint env endpoint settings result)"
| w_u_hcnModifyLoadBalancer:
    "wrapper True procHcnModifyLoadBalancer []
       [Val loadBalancer, Utf16 settings, Val result]
       (Some loadBalancer)
       (\<lambda>env. u_hcnModifyLoadBalancer env loadBalancer settings result)"
| w_hcnModifyLoadBalancer:
    "wrapper True procHcnModifyLoadBalancer [settings]
       [Val loadBalancer, Utf16 (utf16z settings), Val result]
       (Some loadBalancer)
       (\<lambda>env. hcnModifyLoadBalancer env loadBalancer settings result)"
| w_u_hcnModifyNamespace:
    "wrapper True procHcnModifyNamespace []
       [Val namespace, Utf16 settings, Val result]
       (Some namespace)
       (\<lambda>env. u_hcnModifyNamespace env namespace settings result)"
| w_hcnModifyNamespace:
    "wrapper True procHcnModifyNamespace [settings]
       [Val namespace, Utf16 (utf16z settings), Val result]
       (Some namespace)
       (\<lambda>env. hcnModifyNamespace env namespace settings result)"
| w_u_hcnModifyNetwork:
    "wrapper True procHcnModifyNetwork []
       [Val network, Utf16 settings, Val result]
       (Some network)
       (\<lambda>env. u_hcnModifyNetwork env network settings result)"
| w_hcnModifyNetwork:
    "wrapper True procHcnModifyNetwork [settings]
       [Val network, Utf16 (utf16z settings), Val result]
       (Some network)
       (\<lambda>env. hcnModifyNetwork env network settings result)"
| w_u_hcnModifyRoute:
    "wrapper True procHcnModifySdnRoute []
       [Val route, Utf16 settings, Val result]
       (Some route)
       (\<lambda>env. u_hcnModifyRoute env route settings result)"
| w_hcnModifyRoute:
    "wrapper True procHcnModifySdnRoute [settings]
       [Val route, Utf16 (utf16z settings), Val result]
       (Some route)
       (\<lambda>env. hcnModifyRoute env route settings result)"
| w_hcnOpenEndpoint:
    "wrapper True procHcnOpenEndpoint []
       [Val id', Val endpoint, Val result]
       None
       (\<lambda>env. hcnOpenEndpoint env id' endpoint result)"
| w_hcnOpenLoadBalancer:
    "wrapper True procHcnOpenLoadBalancer []
       [Val id', Val loadBalancer, Val result]
       None
       (\<lambda>env. hcnOpenLoadBalancer env id' loadBalancer result)"
| w_hcnOpenNamespace:
    "wrapper True procHcnOpenNamespace []
       [Val id', Val namespace, Val result]
       None
       (\<lambda>env. hcnOpenNamespace env id' namespace result)"
| w_hcnOpenNetwork:
    "wrapper True procHcnOpenNetwork []
       [Val id', Val network, Val result]
       None
       (\<lambda>env. hcnOpenNetwork env id' network result)"
| w_hcnOpenRoute:
    "wrapper True procHcnOpenSdnRoute []
       [Val id', Val route, Val result]
       None
       (\<lambda>env. hcnOpenRoute env id' route result)"
| w_u_hcnQueryEndpointProperties:
    "wrapper True procHcnQueryEndpointProperties []
       [Val endpoint, Utf16 query, Val properties, Val result]
       (Some endpoint)
       (\<lambda>env. u_hcnQueryEndpointProperties env endpoint query properties result)"
| w_hcnQueryEndpointProperties:
    "wrapper True procHcnQueryEndpointProperties [query]
       [Val endpoint, Utf16 (utf16z query), Val properties, Val result]
       (Some endpoint)
       (\<lambda>env. hcnQueryEndpointProperties env endpoint query properties result)"
| w_u_hcnQueryLoadBalancerProperties:
    "wrapper True procHcnQueryLoadBalancerProperties []
       [Val loadBalancer, Utf16 query, Val properties, Val result]
       (Some loadBalancer)
       (\<lambda>env. u_hcnQueryLoadBalancerProperties env loadBalancer query properties result)"
| w_hcnQueryLoadBalancerProperties:
    "wrapper True procHcnQueryLoadBalancerProperties [query]
       [Val loadBalancer, Utf16 (utf16z query), Val properties, Val result]
       (Some loadBalancer)
       (\<lambda>env. hcnQueryLoadBalancerProperties env loadBalancer query properties result)"
| w_u_hcnQueryNamespaceProperties:
    "wrapper True procHcnQueryNamespaceProperties []
       [Val namespace, Utf16 query, Val properties, Val result]
       (Some namespace)
       (\<lambda>env. u_hcnQueryNamespaceProperties env namespace query properties result)"
| w_hcnQueryNamespaceProperties:
    "wrapper True procHcnQueryNamespaceProperties [query]
       [Val namespace, Utf16 (utf16z query), Val properties, Val result]
       (Some namespace)
       (\<lambda>env. hcnQueryNamespaceProperties env namespace query properties result)"
| w_u_hcnQueryNetworkProperties:
    "wrapper True procHcnQueryNetworkProperties []
       [Val network, Utf16 query, Val properties, Val result]
       (Some network)
       (\<lambda>env. u_hcnQueryNetworkProperties env network query properties result)"
| w_hcnQueryNetworkProperties:
    "wrapper True procHcnQueryNetworkProperties [query]
       [Val network, Utf16 (utf16z query), Val properties, Val result]
       (Some network)
       (\<lambda>env. hcnQueryNetworkProperties env network query properties result)"
| w_u_hcnQueryRouteProperties:
    "wrapper True procHcnQuerySdnRouteProperties []
       [Val route, Utf16 query, Val properties, Val result]
       (Some route)
       (\<lambda>env. u_hcnQueryRouteProperties env route query properties result)"
| w_hcnQueryRouteProperties:
    "wrapper True procHcnQuerySdnRouteProperties [query]
       [Val route, Utf16 (utf16z query), Val properties, Val result]
       (Some route)
       (\<lambda>env. hcnQueryRouteProperties env route query properties result)"
| w_SetCurrentThreadCompartmentId:
    "wrapper False procSetCurrentThreadCompartmentId []
       [Val (ucast compartmentId)]
       None
       (\<lambda>env. SetCurrentThreadCompartmentId env compartmentId)"
| w_uu_hnsCall:
    "wrapper True procHNSCall []
       [Utf16 method, Utf16 path, Utf16 object, Val response]
       None
       (\<lambda>env. uu_hnsCall env method path object response)"
| w_u_hnsCall:
    "wrapper True procHNSCall [method, path, object]
       [Utf16 (utf16z method), Utf16 (utf16z path), Utf16 (utf16z object), Val response]
       None
       (\<lambda>env. u_hnsCall env method path object response)"

subsection \<open>The wrappers in one description\<close>

text \<open>
  The status decoding rule in the words of the specification: the status is read as a
  signed 32-bit number and a negative value is a failure; a failure whose bits under
  \<open>0x1fff0000\<close> are \<open>0x00070000\<close> is reported as its low 16 bits, any other as the
  raw value; zero and positive values are success.
\<close>

definition decode_status :: "uintptr \<Rightarrow> error option" where
  "decode_status r0 =
     (if sint (ucast r0 :: int32) < 0 then
        Some (Errno (if r0 AND 0x1fff0000 = 0x00070000 then r0 AND 0xffff else r0))
      else None)"

text \<open>
  One description for all wrappers, against which each is compared below: convert the
  strings, bind the entry point, call it once, decode the status.
\<close>

definition gateway ::
  "'w env \<Rightarrow> bool \<Rightarrow> LazyProc \<Rightarrow> string list \<Rightarrow> arg list \<Rightarrow> 'w sys \<Rightarrow>
   error option outcome \<times> 'w sys" where
  "gateway env g p strs args s =
     (if \<exists>x \<in> set strs. CHR 0x00 \<in> set x then (Return (Some (Errno (EINVAL env))), s)
      else
        (case bind_proc env p s of
           (Inl e, s') \<Rightarrow> (if g then Return (Some e) else Panic e, s')
         | (Inr trap, s') \<Rightarrow>
             (case native env trap args (world s') of
                (r0, w') \<Rightarrow>
                  (Return (decode_status r0),
                   s'\<lparr>calls := calls s' @ [(trap, args)], world := w'\<rparr>))))"

subsection \<open>A concrete host for worked examples\<close>

text \<open>
  A host on which every entry point resolves to one address and the native function there
  leaves \<open>r0\<close> in the result register and a short diagnostic text in memory; a host
  on which no entry point resolves; and the state of a process that has called nothing
  yet.  The memory is the text behind the result pointer.
\<close>

definition host :: "uintptr \<Rightarrow> (uint16 list) env" where
  "host r0 =
     \<lparr>EINVAL = 0x20000027,
      loader = (\<lambda>dll name. Inr 0x7FF800001000),
      native = (\<lambda>trap args w. (r0, [0x6F, 0x6B]))\<rparr>"

definition host_without_hcn :: "(uint16 list) env" where
  "host_without_hcn =
     \<lparr>EINVAL = 0x20000027,
      loader = (\<lambda>dll name. Inl (DLLError dll name 126)),
      native = (\<lambda>trap args w. (0, w))\<rparr>"

definition fresh :: "(uint16 list) sys" where
  "fresh = \<lparr>bound = Map.empty, calls = [], world = []\<rparr>"

section \<open>Properties\<close>

declare runes.simps [simp del]

subsection \<open>Every wrapper against the one description\<close>

lemma bind_proc_again:
  "bind_proc env p s = (Inr a, s') \<Longrightarrow> bind_proc env' p s' = (Inr a, s')"
  by (auto simp: bind_proc_def split: option.splits sum.splits)

lemma bind_proc_fail:
  "bind_proc env p s = (Inl e, s') \<Longrightarrow> s' = s"
  by (auto simp: bind_proc_def split: option.splits sum.splits)

lemma bind_proc_keeps:
  "bind_proc env p s = (r, s') \<Longrightarrow> calls s' = calls s \<and> world s' = world s"
  by (auto simp: bind_proc_def split: option.splits sum.splits)

text \<open>
  The body shared by the wrappers that ask \<open>Find\<close> first: the second look-up inside
  \<open>Addr\<close> hits the cache, so the body binds once.
\<close>

lemma guarded_shape:
  "(case Find env p s of
      (Some hr, s1) \<Rightarrow> (Return (Some hr), s1)
    | (None, s1) \<Rightarrow>
        (case Addr env p s1 of
           (Inl e, s2) \<Rightarrow> (Panic e, s2)
         | (Inr trap, s2) \<Rightarrow>
             (case SyscallN env trap args s2 of
                (r0, s3) \<Rightarrow>
                  if sint (ucast r0 :: int32) < 0 then
                    (Return
                       (Some (Errno (if r0 AND 0x1fff0000 = 0x00070000 then r0 AND 0xffff else r0))),
                     s3)
                  else (Return None, s3))))
   = (case bind_proc env p s of
        (Inl e, s') \<Rightarrow> (Return (Some e), s')
      | (Inr trap, s') \<Rightarrow>
          (case native env trap args (world s') of
             (r0, w') \<Rightarrow>
               (Return (decode_status r0),
                s'\<lparr>calls := calls s' @ [(trap, args)], world := w'\<rparr>)))"
  by (auto simp: Find_def Addr_def SyscallN_def decode_status_def
           dest: bind_proc_again [where env' = env] split: prod.splits sum.splits option.splits)

lemma bare_shape:
  "(case Addr env p s of
      (Inl e, s2) \<Rightarrow> (Panic e, s2)
    | (Inr trap, s2) \<Rightarrow>
        (case SyscallN env trap args s2 of
           (r0, s3) \<Rightarrow>
             if sint (ucast r0 :: int32) < 0 then
               (Return
                  (Some (Errno (if r0 AND 0x1fff0000 = 0x00070000 then r0 AND 0xffff else r0))),
                s3)
             else (Return None, s3)))
   = (case bind_proc env p s of
        (Inl e, s') \<Rightarrow> (Panic e, s')
      | (Inr trap, s') \<Rightarrow>
          (case native env trap args (world s') of
             (r0, w') \<Rightarrow>
               (Return (decode_status r0),
                s'\<lparr>calls := calls s' @ [(trap, args)], world := w'\<rparr>)))"
  by (auto simp: Addr_def SyscallN_def decode_status_def split: prod.splits sum.splits option.splits)

lemmas wrapper_defs =
  hcnCloseEndpoint_def
  hcnCloseLoadBalancer_def
  hcnCloseNamespace_def
  hcnCloseNetwork_def
  hcnCloseRoute_def
  u_hcnCreateEndpoint_def
  hcnCreateEndpoint_def
  u_hcnCreateLoadBalancer_def
  hcnCreateLoadBalancer_def
  u_hcnCreateNamespace_def
  hcnCreateNamespace_def
  u_hcnCreateNetwork_def
  hcnCreateNetwork_def
  u_hcnCreateRoute_def
  hcnCreateRoute_def
  hcnDeleteEndpoint_def
  hcnDeleteLoadBalancer_def
  hcnDeleteNamespace_def
  hcnDeleteNetwork_def
  hcnDeleteRoute_def
  u_hcnEnumerateEndpoints_def
  hcnEnumerateEndpoints_def
  u_hcnEnumerateLoadBalancers_def
  hcnEnumerateLoadBalancers_def
  u_hcnEnumerateNamespaces_def
  hcnEnumerateNamespaces_def
  u_hcnEnumerateNetworks_def
  hcnEnumerateNetworks_def
  u_hcnEnumerateRoutes_def
  hcnEnumerateRoutes_def
  u_hcnModifyEndpoint_def
  hcnModifyEndpoint_def
  u_hcnModifyLoadBalancer_def
  hcnModifyLoadBalancer_def
  u_hcnModifyNamespace_def
  hcnModifyNamespace_def
  u_hcnModifyNetwork_def
  hcnModifyNetwork_def
  u_hcnModifyRoute_def
  hcnModifyRoute_def
  hcnOpenEndpoint_def
  hcnOpenLoadBalancer_def
  hcnOpenNamespace_def
  hcnOpenNetwork_def
  hcnOpenRoute_def
  u_hcnQueryEndpointProperties_def
  hcnQueryEndpointProperties_def
  u_hcnQueryLoadBalancerProperties_def
  hcnQueryLoadBalancerProperties_def
  u_hcnQueryNamespaceProperties_def
  hcnQueryNamespaceProperties_def
  u_hcnQueryNetworkProperties_def
  hcnQueryNetworkProperties_def
  u_hcnQueryRouteProperties_def
  hcnQueryRouteProperties_def
  SetCurrentThreadCompartmentId_def
  uu_hnsCall_def
  u_hnsCall_def

lemma UTF16PtrFromString_cases:
  "UTF16PtrFromString env x =
     (if CHR 0x00 \<in> set x then Inl (Errno (EINVAL env)) else Inr (utf16z x))"
  by (simp add: UTF16PtrFromString_def UTF16FromString_def utf16z_def)

lemma wrapper_gateway:
  "wrapper g p strs args h f \<Longrightarrow> f env s = gateway env g p strs args s"
  by (induction rule: wrapper.induct)
     (simp_all add: wrapper_defs gateway_def guarded_shape bare_shape UTF16PtrFromString_cases
        split: prod.splits sum.splits)


text \<open>What a call that did not reach it looks like.\<close>

lemma gateway_calls:
  assumes "gateway env g p strs args s = (out, s')"
  shows "calls s' = calls s \<or> (\<exists>trap. calls s' = calls s @ [(trap, args)])"
  using assms
  by (auto simp: gateway_def split: if_splits prod.splits sum.splits
           dest: bind_proc_fail bind_proc_keeps)

lemma gateway_reaches:
  assumes "\<forall>x \<in> set strs. CHR 0x00 \<notin> set x"
    and "bind_proc env p s = (Inr trap, s1)"
  shows "gateway env g p strs args s =
           (Return (decode_status (fst (native env trap args (world s)))),
            s1\<lparr>calls := calls s @ [(trap, args)],
                world := snd (native env trap args (world s))\<rparr>)"
  using assms bind_proc_keeps [OF assms(2)]
  by (auto simp: gateway_def split: prod.splits)

subsection \<open>Status decoding\<close>

lemmas eval_defs =
  Find_def Addr_def bind_proc_def SyscallN_def host_def host_without_hcn_def fresh_def NewProc_def

text \<open>
  Claim C1.  For every wrapper that returns an error: once its strings have converted and
  its entry point is bound, if the value \<open>r0\<close> that the native function leaves in the
  result register is negative when its low 32 bits are read as a signed number, the
  wrapper returns an \<open>Errno\<close>: the low 16 bits of \<open>r0\<close> if \<open>r0\<close> masked with
  \<open>0x1fff0000\<close> is \<open>0x00070000\<close>, and \<open>r0\<close> itself, unchanged, otherwise.  The
  native function has then been invoked once, and the memory is as it left it.
\<close>

theorem negative_status_decoding:
  assumes "wrapper g p strs args h f"
    and "\<forall>x \<in> set strs. CHR 0x00 \<notin> set x"
    and "bind_proc env p s = (Inr trap, s1)"
    and "native env trap args (world s) = (r0, w')"
    and "sint (ucast r0 :: int32) < 0"
  shows "f env s =
           (Return (Some (Errno (if r0 AND 0x1fff0000 = 0x00070000 then r0 AND 0xffff else r0))),
            s1\<lparr>calls := calls s @ [(trap, args)], world := w'\<rparr>)"
  using gateway_reaches [OF assms(2,3), of g args] wrapper_gateway [OF assms(1), of env s]
    assms(4,5)
  by (simp add: decode_status_def)

lemma bind_on_host:
  "bind_proc (host r0) p fresh = (Inr 0x7FF800001000, fresh\<lparr>bound := [p \<mapsto> 0x7FF800001000]\<rparr>)"
  by (simp add: eval_defs)

theorem negative_status_decoding_witness:
  "wrapper True procHcnCloseEndpoint [] [Val 7] (Some 7) (\<lambda>env. hcnCloseEndpoint env 7)
   \<and> wrapper False procSetCurrentThreadCompartmentId [] [Val (ucast (3 :: uint32))] None
       (\<lambda>env. SetCurrentThreadCompartmentId env 3)
   \<and> bind_proc (host 0x80070005) procHcnCloseEndpoint fresh
       = (Inr 0x7FF800001000, fresh\<lparr>bound := [procHcnCloseEndpoint \<mapsto> 0x7FF800001000]\<rparr>)
   \<and> native (host 0x80070005) 0x7FF800001000 [Val 7] (world fresh) = (0x80070005, [0x6F, 0x6B])
   \<and> sint (ucast (0x80070005 :: uintptr) :: int32) < 0
   \<and> hcnCloseEndpoint (host 0x80070005) 7 fresh =
       (Return (Some (Errno 5)),
        \<lparr>bound = [procHcnCloseEndpoint \<mapsto> 0x7FF800001000],
         calls = [(0x7FF800001000, [Val 7])], world = [0x6F, 0x6B]\<rparr>)
   \<and> SetCurrentThreadCompartmentId (host 0x80004005) 3 fresh =
       (Return (Some (Errno 0x80004005)),
        \<lparr>bound = [procSetCurrentThreadCompartmentId \<mapsto> 0x7FF800001000],
         calls = [(0x7FF800001000, [Val 3])], world = [0x6F, 0x6B]\<rparr>)"
proof -
  have w1: "wrapper True procHcnCloseEndpoint [] [Val 7] (Some 7) (\<lambda>env. hcnCloseEndpoint env 7)"
    by (rule w_hcnCloseEndpoint)
  have w2: "wrapper False procSetCurrentThreadCompartmentId [] [Val (ucast (3 :: uint32))] None
       (\<lambda>env. SetCurrentThreadCompartmentId env 3)"
    by (rule w_SetCurrentThreadCompartmentId)
  have n: "\<forall>x \<in> set ([] :: string list). CHR 0x00 \<notin> set x"
    by simp
  have b1: "bind_proc (host 0x80070005) procHcnCloseEndpoint fresh
       = (Inr 0x7FF800001000, fresh\<lparr>bound := [procHcnCloseEndpoint \<mapsto> 0x7FF800001000]\<rparr>)"
    by (rule bind_on_host)
  have b2: "bind_proc (host 0x80004005) procSetCurrentThreadCompartmentId fresh
       = (Inr 0x7FF800001000,
          fresh\<lparr>bound := [procSetCurrentThreadCompartmentId \<mapsto> 0x7FF800001000]\<rparr>)"
    by (rule bind_on_host)
  have n1: "native (host 0x80070005) 0x7FF800001000 [Val 7] (world fresh) = (0x80070005, [0x6F, 0x6B])"
    by (simp add: host_def)
  have n2: "native (host 0x80004005) 0x7FF800001000 [Val (ucast (3 :: uint32))] (world fresh)
       = (0x80004005, [0x6F, 0x6B])"
    by (simp add: host_def)
  have neg1: "sint (ucast (0x80070005 :: uintptr) :: int32) < 0"
    by simp
  have neg2: "sint (ucast (0x80004005 :: uintptr) :: int32) < 0"
    by simp
  from negative_status_decoding [OF w1 n b1 n1 neg1]
    negative_status_decoding [OF w2 n b2 n2 neg2] w1 w2 b1 n1 neg1
  show ?thesis
    by (simp add: fresh_def)
qed




text \<open>
  Claim C9.  There is one decoding function, \<open>decode_status\<close>, for all wrappers that
  return an error (the Close, Create, Delete, Enumerate, Modify, Open and Query wrappers of
  the five families, \<open>SetCurrentThreadCompartmentId\<close> and the HNS call): once the
  strings of such a wrapper have converted and its entry point is bound, what it returns
  is \<open>decode_status\<close> of the value the native function leaves in the result register.
\<close>

theorem one_decode_for_all_wrappers:
  assumes "wrapper g p strs args h f"
    and "\<forall>x \<in> set strs. CHR 0x00 \<notin> set x"
    and "bind_proc env p s = (Inr trap, s1)"
  shows "fst (f env s) = Return (decode_status (fst (native env trap args (world s))))"
  using gateway_reaches [OF assms(2,3), of g args] wrapper_gateway [OF assms(1), of env s]
  by simp

theorem one_decode_for_all_wrappers_witness:
  "wrapper True procHNSCall [] [Utf16 [0x47, 0], Utf16 [0x2F, 0], Utf16 [0], Val 0x3000] None
     (\<lambda>env. uu_hnsCall env [0x47, 0] [0x2F, 0] [0] 0x3000)
   \<and> wrapper False procSetCurrentThreadCompartmentId [] [Val (ucast (3 :: uint32))] None
       (\<lambda>env. SetCurrentThreadCompartmentId env 3)
   \<and> bind_proc (host 0x80070005) procHNSCall fresh
       = (Inr 0x7FF800001000, fresh\<lparr>bound := [procHNSCall \<mapsto> 0x7FF800001000]\<rparr>)
   \<and> fst (uu_hnsCall (host 0x80070005) [0x47, 0] [0x2F, 0] [0] 0x3000 fresh)
       = Return (decode_status 0x80070005)
   \<and> fst (SetCurrentThreadCompartmentId (host 0x80070005) 3 fresh)
       = Return (decode_status 0x80070005)
   \<and> decode_status 0x80070005 = Some (Errno 5)
   \<and> fst (uu_hnsCall (host 0) [0x47, 0] [0x2F, 0] [0] 0x3000 fresh) = Return (decode_status 0)
   \<and> decode_status 0 = None"
proof -
  let ?a = "[Utf16 [0x47, 0], Utf16 [0x2F, 0], Utf16 [0], Val 0x3000]"
  have w1: "wrapper True procHNSCall [] ?a None
     (\<lambda>env. uu_hnsCall env [0x47, 0] [0x2F, 0] [0] 0x3000)"
    by (rule w_uu_hnsCall)
  have w2: "wrapper False procSetCurrentThreadCompartmentId [] [Val (ucast (3 :: uint32))] None
       (\<lambda>env. SetCurrentThreadCompartmentId env 3)"
    by (rule w_SetCurrentThreadCompartmentId)
  have n: "\<forall>x \<in> set ([] :: string list). CHR 0x00 \<notin> set x"
    by simp
  have b1: "bind_proc (host 0x80070005) procHNSCall fresh
       = (Inr 0x7FF800001000, fresh\<lparr>bound := [procHNSCall \<mapsto> 0x7FF800001000]\<rparr>)"
    by (rule bind_on_host)
  have b2: "bind_proc (host 0x80070005) procSetCurrentThreadCompartmentId fresh
       = (Inr 0x7FF800001000,
          fresh\<lparr>bound := [procSetCurrentThreadCompartmentId \<mapsto> 0x7FF800001000]\<rparr>)"
    by (rule bind_on_host)
  have b3: "bind_proc (host 0) procHNSCall fresh
       = (Inr 0x7FF800001000, fresh\<lparr>bound := [procHNSCall \<mapsto> 0x7FF800001000]\<rparr>)"
    by (rule bind_on_host)
  have d1: "decode_status 0x80070005 = Some (Errno 5)"
    by (simp add: decode_status_def)
  have d2: "decode_status 0 = None"
    by (simp add: decode_status_def)
  from one_decode_for_all_wrappers [OF w1 n b1] one_decode_for_all_wrappers [OF w2 n b2]
    one_decode_for_all_wrappers [OF w1 n b3] w1 w2 b1 d1 d2
  show ?thesis
    by (simp add: host_def)
qed

text \<open>
  Claim C10.  The sign test reads only the low 32 bits of the result register, but the
  pattern test and the error value use the whole register: once the strings of a wrapper
  have converted and its entry point is bound, if the low 32 bits of the value \<open>r0\<close>
  that the native function leaves in the register are negative as a signed number and
  \<open>r0\<close> does not match the errno pattern, the wrapper returns \<open>Errno r0\<close>, the full
  64-bit value with its bits above bit 31.
\<close>

theorem error_keeps_full_register:
  assumes "wrapper g p strs args h f"
    and "\<forall>x \<in> set strs. CHR 0x00 \<notin> set x"
    and "bind_proc env p s = (Inr trap, s1)"
    and "native env trap args (world s) = (r0, w')"
    and "sint (ucast r0 :: int32) < 0"
    and "r0 AND 0x1fff0000 \<noteq> 0x00070000"
  shows "fst (f env s) = Return (Some (Errno r0))"
  using gateway_reaches [OF assms(2,3), of g args] wrapper_gateway [OF assms(1), of env s]
    assms(4,5,6)
  by (simp add: decode_status_def)

theorem error_keeps_full_register_witness:
  "wrapper True procHcnCloseEndpoint [] [Val 7] (Some 7) (\<lambda>env. hcnCloseEndpoint env 7)
   \<and> wrapper False procSetCurrentThreadCompartmentId [] [Val (ucast (3 :: uint32))] None
       (\<lambda>env. SetCurrentThreadCompartmentId env 3)
   \<and> bind_proc (host 0x180004005) procHcnCloseEndpoint fresh
       = (Inr 0x7FF800001000, fresh\<lparr>bound := [procHcnCloseEndpoint \<mapsto> 0x7FF800001000]\<rparr>)
   \<and> native (host 0x180004005) 0x7FF800001000 [Val 7] (world fresh) = (0x180004005, [0x6F, 0x6B])
   \<and> sint (ucast (0x180004005 :: uintptr) :: int32) < 0
   \<and> (0x180004005 :: uintptr) AND 0x1fff0000 \<noteq> 0x00070000
   \<and> (0x180004005 :: uintptr) \<noteq> ucast (ucast (0x180004005 :: uintptr) :: uint32)
   \<and> fst (hcnCloseEndpoint (host 0x180004005) 7 fresh) = Return (Some (Errno 0x180004005))
   \<and> fst (SetCurrentThreadCompartmentId (host 0x180004005) 3 fresh)
       = Return (Some (Errno 0x180004005))"
proof -
  have w1: "wrapper True procHcnCloseEndpoint [] [Val 7] (Some 7) (\<lambda>env. hcnCloseEndpoint env 7)"
    by (rule w_hcnCloseEndpoint)
  have w2: "wrapper False procSetCurrentThreadCompartmentId [] [Val (ucast (3 :: uint32))] None
       (\<lambda>env. SetCurrentThreadCompartmentId env 3)"
    by (rule w_SetCurrentThreadCompartmentId)
  have n: "\<forall>x \<in> set ([] :: string list). CHR 0x00 \<notin> set x"
    by simp
  have b1: "bind_proc (host 0x180004005) procHcnCloseEndpoint fresh
       = (Inr 0x7FF800001000, fresh\<lparr>bound := [procHcnCloseEndpoint \<mapsto> 0x7FF800001000]\<rparr>)"
    by (rule bind_on_host)
  have b2: "bind_proc (host 0x180004005) procSetCurrentThreadCompartmentId fresh
       = (Inr 0x7FF800001000,
          fresh\<lparr>bound := [procSetCurrentThreadCompartmentId \<mapsto> 0x7FF800001000]\<rparr>)"
    by (rule bind_on_host)
  have n1: "native (host 0x180004005) 0x7FF800001000 [Val 7] (world fresh)
       = (0x180004005, [0x6F, 0x6B])"
    by (simp add: host_def)
  have n2: "native (host 0x180004005) 0x7FF800001000 [Val (ucast (3 :: uint32))] (world fresh)
       = (0x180004005, [0x6F, 0x6B])"
    by (simp add: host_def)
  have neg: "sint (ucast (0x180004005 :: uintptr) :: int32) < 0"
    by simp
  have pat: "(0x180004005 :: uintptr) AND 0x1fff0000 \<noteq> 0x00070000"
    by simp
  have hi: "(0x180004005 :: uintptr) \<noteq> ucast (ucast (0x180004005 :: uintptr) :: uint32)"
    by simp
  from error_keeps_full_register [OF w1 n b1 n1 neg pat]
    error_keeps_full_register [OF w2 n b2 n2 neg pat] w1 w2 b1 n1 neg pat hi
  show ?thesis
    by simp
qed

text \<open>
  Claim C2 (as amended).  A wrapper that asks \<open>Find\<close> first (every Hcn wrapper and the
  HNS call) and whose string arguments have converted returns the loader's error when its
  entry point does not resolve, and leaves the state as it was: the native function is not
  invoked.  \<open>SetCurrentThreadCompartmentId\<close>, which uses \<open>Addr\<close> without asking
  \<open>Find\<close>, panics with that error instead of returning it.
\<close>

theorem resolution_failure_reported:
  assumes "wrapper g p strs args h f"
    and "\<forall>x \<in> set strs. CHR 0x00 \<notin> set x"
    and "bound s p = None"
    and "loader env (fst p) (snd p) = Inl e"
  shows "f env s = (if g then Return (Some e) else Panic e, s)"
proof -
  from assms(3,4) have "bind_proc env p s = (Inl e, s)"
    by (simp add: bind_proc_def)
  with assms(2) have "gateway env g p strs args s = (if g then Return (Some e) else Panic e, s)"
    by (simp add: gateway_def)
  with assms(1) show ?thesis
    by (simp add: wrapper_gateway)
qed

theorem resolution_failure_reported_witness:
  "wrapper True procHcnCreateNetwork [''{}'']
     [Val 0x1000, Utf16 (utf16z ''{}''), Val 0x2000, Val 0x3000] None
     (\<lambda>env. hcnCreateNetwork env 0x1000 ''{}'' 0x2000 0x3000)
   \<and> CHR 0x00 \<notin> set ''{}''
   \<and> bound fresh procHcnCreateNetwork = None
   \<and> loader host_without_hcn (fst procHcnCreateNetwork) (snd procHcnCreateNetwork)
       = Inl (DLLError ''computenetwork.dll'' ''HcnCreateNetwork'' 126)
   \<and> hcnCreateNetwork host_without_hcn 0x1000 ''{}'' 0x2000 0x3000 fresh
       = (Return (Some (DLLError ''computenetwork.dll'' ''HcnCreateNetwork'' 126)), fresh)"
proof -
  have w: "wrapper True procHcnCreateNetwork [''{}'']
     [Val 0x1000, Utf16 (utf16z ''{}''), Val 0x2000, Val 0x3000] None
     (\<lambda>env. hcnCreateNetwork env 0x1000 ''{}'' 0x2000 0x3000)"
    by (rule w_hcnCreateNetwork)
  have n: "\<forall>x \<in> set [''{}'']. CHR 0x00 \<notin> set x"
    by simp
  have b: "bound fresh procHcnCreateNetwork = None"
    by (simp add: fresh_def)
  have l: "loader host_without_hcn (fst procHcnCreateNetwork) (snd procHcnCreateNetwork)
       = Inl (DLLError ''computenetwork.dll'' ''HcnCreateNetwork'' 126)"
    by (simp add: host_without_hcn_def procHcnCreateNetwork_def NewProc_def modcomputenetwork_def)
  from resolution_failure_reported [OF w n b l] w n b l show ?thesis
    by simp
qed

theorem unguarded_resolution_failure_counterexample:
  "SetCurrentThreadCompartmentId host_without_hcn 1 fresh
     = (Panic (DLLError ''iphlpapi.dll'' ''SetCurrentThreadCompartmentId'' 126), fresh)
   \<and> fst (SetCurrentThreadCompartmentId host_without_hcn 1 fresh)
     \<noteq> Return (Some (DLLError ''iphlpapi.dll'' ''SetCurrentThreadCompartmentId'' 126))
   \<and> GetCurrentThreadCompartmentId host_without_hcn fresh
     = (Panic (DLLError ''iphlpapi.dll'' ''GetCurrentThreadCompartmentId'' 126), fresh)"
  by (simp add: SetCurrentThreadCompartmentId_def GetCurrentThreadCompartmentId_def eval_defs
        procSetCurrentThreadCompartmentId_def procGetCurrentThreadCompartmentId_def
        modiphlpapi_def)

text \<open>
  Claim C5.  The state has no table of valid handles, and a wrapper with a handle
  parameter does nothing with the handle but pass it on: for every handle value, once the
  strings have converted and the entry point is bound, the native function is invoked
  with that value as its first argument and the wrapper returns the decoded status.
\<close>

lemma wrapper_handle_first:
  "wrapper g p strs args (Some hnd) f \<Longrightarrow> args \<noteq> [] \<and> hd args = Val hnd"
  by (erule wrapper.cases) simp_all

theorem handle_forwarded_unchecked:
  assumes "wrapper g p strs args (Some hnd) f"
    and "\<forall>x \<in> set strs. CHR 0x00 \<notin> set x"
    and "bind_proc env p s = (Inr trap, s1)"
  shows "args \<noteq> [] \<and> hd args = Val hnd
         \<and> f env s =
             (Return (decode_status (fst (native env trap args (world s)))),
              s1\<lparr>calls := calls s @ [(trap, args)],
                  world := snd (native env trap args (world s))\<rparr>)"
  using wrapper_handle_first [OF assms(1)] gateway_reaches [OF assms(2,3)]
    wrapper_gateway [OF assms(1)]
  by simp

theorem handle_forwarded_unchecked_witness:
  "wrapper True procHcnCloseNetwork [] [Val 0xDEAD] (Some 0xDEAD) (\<lambda>env. hcnCloseNetwork env 0xDEAD)
   \<and> bind_proc (host 0x80070006) procHcnCloseNetwork fresh
       = (Inr 0x7FF800001000, fresh\<lparr>bound := [procHcnCloseNetwork \<mapsto> 0x7FF800001000]\<rparr>)
   \<and> hcnCloseNetwork (host 0x80070006) 0xDEAD fresh
       = (Return (Some (Errno 6)),
          \<lparr>bound = [procHcnCloseNetwork \<mapsto> 0x7FF800001000],
           calls = [(0x7FF800001000, [Val 0xDEAD])], world = [0x6F, 0x6B]\<rparr>)"
proof -
  have w: "wrapper True procHcnCloseNetwork [] [Val 0xDEAD] (Some 0xDEAD)
             (\<lambda>env. hcnCloseNetwork env 0xDEAD)"
    by (rule w_hcnCloseNetwork)
  have n: "\<forall>x \<in> set ([] :: string list). CHR 0x00 \<notin> set x"
    by simp
  have b: "bind_proc (host 0x80070006) procHcnCloseNetwork fresh
       = (Inr 0x7FF800001000, fresh\<lparr>bound := [procHcnCloseNetwork \<mapsto> 0x7FF800001000]\<rparr>)"
    by (simp add: eval_defs)
  have d: "decode_status 0x80070006 = Some (Errno 6)"
    by (simp add: decode_status_def)
  from handle_forwarded_unchecked [OF w n b] w n b d show ?thesis
    by (simp add: host_def fresh_def)
qed

text \<open>
  Claim C8.  No wrapper retries.  A call of a wrapper leaves the trace of native
  invocations as it was or adds exactly one invocation to it, whatever the status that
  invocation returns; it adds exactly one when the strings have converted and the entry
  point is bound.  The same holds for \<open>GetCurrentThreadCompartmentId\<close>.
\<close>

lemma GetCurrentThreadCompartmentId_calls:
  "GetCurrentThreadCompartmentId env s = (v, t) \<Longrightarrow>
     calls t = calls s \<or> (\<exists>trap. calls t = calls s @ [(trap, [])])"
  by (auto simp: GetCurrentThreadCompartmentId_def Addr_def SyscallN_def
           split: prod.splits sum.splits dest: bind_proc_keeps)

theorem native_invoked_at_most_once:
  assumes "wrapper g p strs args h f"
    and "f env s = (out, s')"
  shows "(calls s' = calls s \<or> (\<exists>trap. calls s' = calls s @ [(trap, args)]))
         \<and> ((\<forall>x \<in> set strs. CHR 0x00 \<notin> set x) \<and> fst (bind_proc env p s) = Inr trap'
              \<longrightarrow> calls s' = calls s @ [(trap', args)])
         \<and> (GetCurrentThreadCompartmentId env s = (v, t)
              \<longrightarrow> calls t = calls s \<or> (\<exists>trap. calls t = calls s @ [(trap, [])]))"
proof -
  from assms have gw: "gateway env g p strs args s = (out, s')"
    by (simp add: wrapper_gateway)
  have one: "calls s' = calls s \<or> (\<exists>trap. calls s' = calls s @ [(trap, args)])"
    by (rule gateway_calls [OF gw])
  have two: "calls s' = calls s @ [(trap', args)]"
    if "\<forall>x \<in> set strs. CHR 0x00 \<notin> set x" and "fst (bind_proc env p s) = Inr trap'"
  proof -
    from that(2) obtain s1 where "bind_proc env p s = (Inr trap', s1)"
      by (cases "bind_proc env p s") simp
    from gateway_reaches [OF that(1) this, of g args] gw show ?thesis
      by simp
  qed
  from one two GetCurrentThreadCompartmentId_calls show ?thesis
    by blast
qed

lemma uu_hnsCall_on_host:
  "uu_hnsCall (host r0) [0x47, 0] [0x2F, 0] [0] 0x3000 fresh =
     (Return (decode_status r0),
      \<lparr>bound = [procHNSCall \<mapsto> 0x7FF800001000],
       calls = [(0x7FF800001000, [Utf16 [0x47, 0], Utf16 [0x2F, 0], Utf16 [0], Val 0x3000])],
       world = [0x6F, 0x6B]\<rparr>)"
  by (simp add: uu_hnsCall_def eval_defs decode_status_def)

theorem native_invoked_at_most_once_witness:
  "wrapper True procHNSCall [] [Utf16 [0x47, 0], Utf16 [0x2F, 0], Utf16 [0], Val 0x3000] None
     (\<lambda>env. uu_hnsCall env [0x47, 0] [0x2F, 0] [0] 0x3000)
   \<and> uu_hnsCall (host 0x80004005) [0x47, 0] [0x2F, 0] [0] 0x3000 fresh =
       (Return (Some (Errno 0x80004005)),
        \<lparr>bound = [procHNSCall \<mapsto> 0x7FF800001000],
         calls = [(0x7FF800001000, [Utf16 [0x47, 0], Utf16 [0x2F, 0], Utf16 [0], Val 0x3000])],
         world = [0x6F, 0x6B]\<rparr>)
   \<and> fst (bind_proc (host 0x80004005) procHNSCall fresh) = Inr 0x7FF800001000
   \<and> GetCurrentThreadCompartmentId (host 0x80004005) fresh =
       (Return 0x80004005,
        \<lparr>bound = [procGetCurrentThreadCompartmentId \<mapsto> 0x7FF800001000],
         calls = [(0x7FF800001000, [])], world = [0x6F, 0x6B]\<rparr>)
   \<and> length (calls (snd (uu_hnsCall (host 0x80004005) [0x47, 0] [0x2F, 0] [0] 0x3000 fresh))) = 1"
proof -
  let ?a = "[Utf16 [0x47, 0], Utf16 [0x2F, 0], Utf16 [0], Val 0x3000]"
  let ?t = "\<lparr>bound = [procHNSCall \<mapsto> 0x7FF800001000], calls = [(0x7FF800001000, ?a)],
             world = [0x6F, 0x6B :: uint16]\<rparr>"
  let ?u = "\<lparr>bound = [procGetCurrentThreadCompartmentId \<mapsto> 0x7FF800001000],
             calls = [(0x7FF800001000, [])], world = [0x6F, 0x6B :: uint16]\<rparr>"
  have w: "wrapper True procHNSCall [] ?a None
     (\<lambda>env. uu_hnsCall env [0x47, 0] [0x2F, 0] [0] 0x3000)"
    by (rule w_uu_hnsCall)
  have r: "uu_hnsCall (host 0x80004005) [0x47, 0] [0x2F, 0] [0] 0x3000 fresh
             = (Return (decode_status 0x80004005), ?t)"
    by (rule uu_hnsCall_on_host)
  have d: "decode_status 0x80004005 = Some (Errno 0x80004005)"
    by (simp add: decode_status_def)
  have n: "\<forall>x \<in> set ([] :: string list). CHR 0x00 \<notin> set x"
    by simp
  have b: "fst (bind_proc (host 0x80004005) procHNSCall fresh) = Inr 0x7FF800001000"
    by (simp add: eval_defs)
  have g: "GetCurrentThreadCompartmentId (host 0x80004005) fresh = (Return 0x80004005, ?u)"
    by (simp add: GetCurrentThreadCompartmentId_def eval_defs)
  from native_invoked_at_most_once [OF w r, of "0x7FF800001000" "Return 0x80004005" ?u]
    r w d n b g
  show ?thesis
    by (simp add: fresh_def)
qed

text \<open>
  Claim C6.  Resolving an entry point twice is the same as resolving it once: the second
  \<open>Find\<close> gives the result and the state of the first.  Once an entry point is bound, a
  further \<open>Find\<close> or \<open>Addr\<close> on it answers from the cache, whatever the loader would
  say now, and leaves the state alone, so every call made afterwards behaves as it would
  have without the second resolution.
\<close>

theorem resolving_twice_is_resolving_once:
  "Find env p (snd (Find env p s)) = Find env p s
   \<and> (Find env p s = (None, s1) \<longrightarrow>
        Find env' p s1 = (None, s1)
        \<and> (\<exists>a. Addr env' p s1 = (Inr a, s1))
        \<and> f env'' (snd (Find env' p s1)) = f env'' s1)"
proof -
  have one: "Find env p (snd (Find env p s)) = Find env p s"
    by (auto simp: Find_def bind_proc_def split: option.splits sum.splits)
  have two: "Find env' p s1 = (None, s1) \<and> (\<exists>a. Addr env' p s1 = (Inr a, s1))"
    if "Find env p s = (None, s1)"
  proof -
    from that obtain a where "bind_proc env p s = (Inr a, s1)"
      by (auto simp: Find_def split: prod.splits sum.splits)
    then have "bind_proc env' p s1 = (Inr a, s1)"
      by (rule bind_proc_again)
    then show ?thesis
      by (simp add: Find_def Addr_def)
  qed
  from one two show ?thesis
    by auto
qed

theorem resolving_twice_is_resolving_once_witness:
  "Find (host 0) procHcnCloseEndpoint fresh
     = (None, fresh\<lparr>bound := [procHcnCloseEndpoint \<mapsto> 0x7FF800001000]\<rparr>)
   \<and> Find host_without_hcn procHcnCloseEndpoint
         (fresh\<lparr>bound := [procHcnCloseEndpoint \<mapsto> 0x7FF800001000]\<rparr>)
     = (None, fresh\<lparr>bound := [procHcnCloseEndpoint \<mapsto> 0x7FF800001000]\<rparr>)
   \<and> hcnCloseEndpoint (host 0) 7
         (snd (Find host_without_hcn procHcnCloseEndpoint
                 (fresh\<lparr>bound := [procHcnCloseEndpoint \<mapsto> 0x7FF800001000]\<rparr>)))
     = hcnCloseEndpoint (host 0) 7 (fresh\<lparr>bound := [procHcnCloseEndpoint \<mapsto> 0x7FF800001000]\<rparr>)"
proof -
  have r: "Find (host 0) procHcnCloseEndpoint fresh
     = (None, fresh\<lparr>bound := [procHcnCloseEndpoint \<mapsto> 0x7FF800001000]\<rparr>)"
    by (simp add: eval_defs)
  from resolving_twice_is_resolving_once
         [of "host 0" procHcnCloseEndpoint fresh
             "fresh\<lparr>bound := [procHcnCloseEndpoint \<mapsto> 0x7FF800001000]\<rparr>"
             host_without_hcn "\<lambda>env. hcnCloseEndpoint env 7" "host 0"] r
  show ?thesis
    by simp
qed

subsection \<open>The conversion of strings\<close>

lemma first_Some:
  "first s0 = Some (sz, lo, hi) \<Longrightarrow>
     (sz = 2 \<or> sz = 3 \<or> sz = 4) \<and> 0x80 \<le> lo \<and> hi \<le> 0xBF"
  by (auto simp: first_def locb_def hicb_def split: if_splits)

lemma DecodeRune_width:
  "s \<noteq> [] \<Longrightarrow> DecodeRuneInString s = (r, sz) \<Longrightarrow> 1 \<le> sz \<and> sz \<le> length s"
  by (auto simp: DecodeRuneInString_def Let_def Suc_le_eq
           split: list.splits option.splits if_splits dest!: first_Some)

lemma DecodeRune_NUL:
  "s \<noteq> [] \<Longrightarrow> DecodeRuneInString (s @ [CHR 0x00]) = DecodeRuneInString s"
proof (cases s)
  case Nil
  assume "s \<noteq> []" with Nil show ?thesis by simp
next
  case (Cons c0 t)
  show ?thesis
  proof (cases "first (of_char c0)")
    case None
    with Cons show ?thesis by (simp add: DecodeRuneInString_def)
  next
    case (Some x)
    obtain sz lo hi where x: "x = (sz, lo, hi)" by (cases x)
    from first_Some [of "of_char c0" sz lo hi] Some x
    have sz: "sz = 2 \<or> sz = 3 \<or> sz = 4" and lo: "0x80 \<le> lo" by simp_all
    show ?thesis
    proof (cases t)
      case Nil
      with Cons Some x sz lo show ?thesis
        by (auto simp: DecodeRuneInString_def)
    next
      case t1: (Cons c1 t')
      show ?thesis
      proof (cases t')
        case Nil
        with Cons Some x sz lo t1 show ?thesis
          by (auto simp: DecodeRuneInString_def Let_def locb_def)
      next
        case t2: (Cons c2 t'')
        show ?thesis
        proof (cases t'')
          case Nil
          with Cons Some x sz lo t1 t2 show ?thesis
            by (auto simp: DecodeRuneInString_def Let_def locb_def)
        next
          case t3: (Cons c3 t''')
          with Cons Some x sz lo t1 t2 show ?thesis
            by (auto simp: DecodeRuneInString_def Let_def locb_def)
        qed
      qed
    qed
  qed
qed


lemma runes_NUL: "runes (s @ [CHR 0x00]) = runes s @ [0]"
proof (induction s rule: runes.induct)
  case (1 s)
  show ?case
  proof (cases "s = []")
    case True
    then show ?thesis
      by (simp add: runes.simps [of "[CHR 0x00]"] runes.simps [of "[]"] DecodeRuneInString_def)
  next
    case False
    obtain r sz where d: "DecodeRuneInString s = (r, sz)"
      by (cases "DecodeRuneInString s")
    from DecodeRune_width [OF False d] have sz: "sz \<le> length s" by simp
    from "1.IH" [OF False d [symmetric]]
    have "runes (drop sz s @ [CHR 0x00]) = runes (drop sz s) @ [0]" .
    with False d sz show ?thesis
      by (simp add: runes.simps [of "s @ [CHR 0x00]"] runes.simps [of s] DecodeRune_NUL)
  qed
qed

lemma Encode_append: "Encode (xs @ ys) = Encode xs @ Encode ys"
  by (induction xs) simp_all

lemma utf16z_terminated: "utf16z s = Encode (runes s) @ [0]"
  by (simp add: utf16z_def runes_NUL Encode_append surr1_def)
























subsection \<open>String arguments of the wrappers\<close>

lemma utf16z_last: "utf16z x \<noteq> [] \<and> last (utf16z x) = 0"
  by (simp add: utf16z_terminated)

lemma wrapper_strings:
  "wrapper g p strs args h f \<Longrightarrow> y \<in> set strs \<Longrightarrow> Utf16 (utf16z y) \<in> set args"
  by (erule wrapper.cases) auto

text \<open>
  Claim C4.  For every wrapper with string arguments: if the conversion of one of its
  strings fails, as it does for a string with a NUL byte, the wrapper returns that
  conversion error at once and leaves the state as it was, so the native function is not
  invoked (nor is the entry point resolved).  If all of them convert and the entry point
  is bound, the native function receives, for each string, the buffer its conversion
  produced, and that buffer ends in a NUL unit.
\<close>

theorem string_arguments_converted_first:
  assumes "wrapper g p strs args h f"
  shows "(x \<in> set strs \<and> UTF16PtrFromString env x = Inl e \<longrightarrow> f env s = (Return (Some e), s))
    \<and> (x \<in> set strs \<and> CHR 0x00 \<in> set x \<longrightarrow>
         (\<exists>e. UTF16PtrFromString env x = Inl e \<and> f env s = (Return (Some e), s)))
    \<and> ((\<forall>y \<in> set strs. CHR 0x00 \<notin> set y) \<and> bind_proc env p s = (Inr trap, s1) \<longrightarrow>
         calls (snd (f env s)) = calls s @ [(trap, args)]
         \<and> (\<forall>y \<in> set strs. \<exists>buf. UTF16PtrFromString env y = Inr buf \<and> Utf16 buf \<in> set args
                \<and> buf \<noteq> [] \<and> last buf = 0))"
proof -
  have gw: "f env s = gateway env g p strs args s"
    by (rule wrapper_gateway [OF assms])
  have one: "f env s = (Return (Some e), s)"
    if "x \<in> set strs" and "UTF16PtrFromString env x = Inl e"
  proof -
    from that(2) have "CHR 0x00 \<in> set x" and "e = Errno (EINVAL env)"
      by (auto simp: UTF16PtrFromString_cases split: if_splits)
    with that(1) show ?thesis
      unfolding gw by (auto simp: gateway_def)
  qed
  have two: "\<exists>e. UTF16PtrFromString env x = Inl e \<and> f env s = (Return (Some e), s)"
    if "x \<in> set strs" and "CHR 0x00 \<in> set x"
    using that unfolding gw by (auto simp: gateway_def UTF16PtrFromString_cases)
  have three: "calls (snd (f env s)) = calls s @ [(trap, args)]
      \<and> (\<forall>y \<in> set strs. \<exists>buf. UTF16PtrFromString env y = Inr buf \<and> Utf16 buf \<in> set args
             \<and> buf \<noteq> [] \<and> last buf = 0)"
    if n: "\<forall>y \<in> set strs. CHR 0x00 \<notin> set y" and b: "bind_proc env p s = (Inr trap, s1)"
  proof -
    from gateway_reaches [OF n b, of g args]
    have "calls (snd (f env s)) = calls s @ [(trap, args)]"
      unfolding gw by simp
    moreover have "\<exists>buf. UTF16PtrFromString env y = Inr buf \<and> Utf16 buf \<in> set args
             \<and> buf \<noteq> [] \<and> last buf = 0" if "y \<in> set strs" for y
      using n that wrapper_strings [OF assms that] utf16z_last [of y]
      by (auto simp: UTF16PtrFromString_cases)
    ultimately show ?thesis by blast
  qed
  from one two three show ?thesis by blast
qed

lemma utf16z_braces: "utf16z ''{}'' = [0x7B, 0x7D, 0]"
  by code_simp

theorem string_arguments_converted_first_witness:
  "wrapper True procHNSCall [''GET'', [CHR ''/'', CHR 0x00], '''']
     [Utf16 (utf16z ''GET''), Utf16 (utf16z [CHR ''/'', CHR 0x00]), Utf16 (utf16z ''''), Val 0x3000]
     None (\<lambda>env. u_hnsCall env ''GET'' [CHR ''/'', CHR 0x00] '''' 0x3000)
   \<and> UTF16PtrFromString (host 0) [CHR ''/'', CHR 0x00] = Inl (Errno 0x20000027)
   \<and> u_hnsCall (host 0) ''GET'' [CHR ''/'', CHR 0x00] '''' 0x3000 fresh
       = (Return (Some (Errno 0x20000027)), fresh)
   \<and> wrapper True procHcnCreateNetwork [''{}'']
       [Val 0x1000, Utf16 (utf16z ''{}''), Val 0x2000, Val 0x3000] None
       (\<lambda>env. hcnCreateNetwork env 0x1000 ''{}'' 0x2000 0x3000)
   \<and> CHR 0x00 \<notin> set ''{}''
   \<and> bind_proc (host 0) procHcnCreateNetwork fresh
       = (Inr 0x7FF800001000, fresh\<lparr>bound := [procHcnCreateNetwork \<mapsto> 0x7FF800001000]\<rparr>)
   \<and> calls (snd (hcnCreateNetwork (host 0) 0x1000 ''{}'' 0x2000 0x3000 fresh))
       = [(0x7FF800001000, [Val 0x1000, Utf16 [0x7B, 0x7D, 0], Val 0x2000, Val 0x3000])]"
proof -
  have w1: "wrapper True procHNSCall [''GET'', [CHR ''/'', CHR 0x00], '''']
     [Utf16 (utf16z ''GET''), Utf16 (utf16z [CHR ''/'', CHR 0x00]), Utf16 (utf16z ''''), Val 0x3000]
     None (\<lambda>env. u_hnsCall env ''GET'' [CHR ''/'', CHR 0x00] '''' 0x3000)"
    by (rule w_u_hnsCall)
  have x: "[CHR ''/'', CHR 0x00] \<in> set [''GET'', [CHR ''/'', CHR 0x00], '''']"
    by simp
  have e: "UTF16PtrFromString (host 0) [CHR ''/'', CHR 0x00] = Inl (Errno 0x20000027)"
    by (simp add: UTF16PtrFromString_cases host_def)
  have w2: "wrapper True procHcnCreateNetwork [''{}'']
       [Val 0x1000, Utf16 (utf16z ''{}''), Val 0x2000, Val 0x3000] None
       (\<lambda>env. hcnCreateNetwork env 0x1000 ''{}'' 0x2000 0x3000)"
    by (rule w_hcnCreateNetwork)
  have n: "\<forall>y \<in> set [''{}'']. CHR 0x00 \<notin> set y"
    by simp
  have b: "bind_proc (host 0) procHcnCreateNetwork fresh
       = (Inr 0x7FF800001000, fresh\<lparr>bound := [procHcnCreateNetwork \<mapsto> 0x7FF800001000]\<rparr>)"
    by (rule bind_on_host)
  from string_arguments_converted_first
         [OF w1, of "[CHR ''/'', CHR 0x00]" "host 0" "Errno 0x20000027" fresh]
    x e
  have r1: "u_hnsCall (host 0) ''GET'' [CHR ''/'', CHR 0x00] '''' 0x3000 fresh
       = (Return (Some (Errno 0x20000027)), fresh)"
    by blast
  from string_arguments_converted_first [OF w2, of _ "host 0" _ fresh "0x7FF800001000"] n b
  have r2: "calls (snd (hcnCreateNetwork (host 0) 0x1000 ''{}'' 0x2000 0x3000 fresh))
       = calls fresh @ [(0x7FF800001000, [Val 0x1000, Utf16 (utf16z ''{}''), Val 0x2000, Val 0x3000])]"
    by blast
  from r1 r2 w1 w2 e b show ?thesis
    by (simp add: utf16z_braces fresh_def)
qed

subsection \<open>The round trip through UTF-16\<close>





end
